theory Spec2Isabelle
  imports
    Main
    "HOL-Library.Char_ord"
    "HOL-Library.List_Lexorder"
    "HOL-Library.AList"
    "HOL-Library.Multiset"
begin

chapter \<open>The identifier of an OpenID Connect provider\<close>

text \<open>
  A shallow embedding of \<^verbatim>\<open>identifier/handlers.go\<close> (the security middleware and the
  Hello and Logon handlers) and of \<^verbatim>\<open>identifier/backends/ldap.go\<close> (the directory
  backend: Logon and the entry-ID encoding).

  A handler writes to its \<^verbatim>\<open>http.ResponseWriter\<close>, logs, and calls collaborators (the
  ticket codec, the backend, the client registry). The model of a handler returns the list
  of these effects in the order the code performs them. What a collaborator answers is a
  field of the record \<open>Identifier\<close>, so every theorem holds for all collaborators.
\<close>

section \<open>Handlers: data\<close>

text \<open>In the handlers only the message of a Go \<^verbatim>\<open>error\<close> is observed.\<close>

type_synonym error = string

text \<open>
  Modelled from the spec: the struct \<^verbatim>\<open>IdentifiedUser\<close> and its methods \<^verbatim>\<open>Subject()\<close>,
  \<^verbatim>\<open>Username()\<close> and \<^verbatim>\<open>Name()\<close> are declared outside the two source files. The
  handlers build it from the fields \<^verbatim>\<open>sub\<close> and \<^verbatim>\<open>username\<close>; the display name is
  the optional third component the spec lists. The fields have the prefix \<open>user_\<close> here. A \<^verbatim>\<open>*IdentifiedUser\<close> is an
  \<open>IdentifiedUser option\<close>, \<open>None\<close> for \<^verbatim>\<open>nil\<close>.
\<close>

record IdentifiedUser =
  user_sub :: string
  user_username :: string
  user_displayName :: string

definition Subject :: "IdentifiedUser \<Rightarrow> string" where
  "Subject u = user_sub u"

definition Username :: "IdentifiedUser \<Rightarrow> string" where
  "Username u = user_username u"

definition Name :: "IdentifiedUser \<Rightarrow> string" where
  "Name u = user_displayName u"

text \<open>
  Modelled from the spec: the values of the prompt constants of package \<^verbatim>\<open>oidc\<close> and of
  the flow constants of package \<^verbatim>\<open>identifier\<close> are declared outside the two source
  files. The prompts are the values OpenID Connect defines; the flows are the three kinds
  the spec names (plain OAuth, OIDC, explicit consent).
\<close>

definition PromptNone :: string where "PromptNone = ''none''"
definition PromptLogin :: string where "PromptLogin = ''login''"
definition PromptConsent :: string where "PromptConsent = ''consent''"

definition FlowOAuth :: string where "FlowOAuth = ''oauth''"
definition FlowConsent :: string where "FlowConsent = ''consent''"
definition FlowOIDC :: string where "FlowOIDC = ''oidc''"

text \<open>
  The request and response bodies. A Go \<^verbatim>\<open>map[string]bool\<close> that is only read is a
  predicate on its keys (a missing key reads as \<^verbatim>\<open>false\<close>). The records have the
  fields the handlers touch, named after the struct and the field.
\<close>

record ClientDetails =
  Client_ID :: string
  Client_Trusted :: bool

record HelloRequest =
  Hello_State :: string
  Hello_Flow :: string
  Hello_Prompts :: "string \<Rightarrow> bool"
  Hello_Scopes :: "string \<Rightarrow> bool"
  Hello_ClientID :: string
  Hello_RedirectURI :: string

record HelloResponse =
  Resp_State :: string
  Resp_Flow :: string
  Resp_Success :: bool
  Resp_Username :: string
  Resp_DisplayName :: string
  Resp_Next :: string
  Resp_ContinueURI :: string
  Resp_RequestedScopes :: "string \<Rightarrow> bool"
  Resp_ClientDetails :: "ClientDetails option"

record LogonRequest =
  Logon_State :: string
  Logon_Params :: "string list"
  Logon_Hello :: "HelloRequest option"

record LogonResponse =
  LogonResp_State :: string
  LogonResp_Success :: bool
  LogonResp_Hello :: "HelloResponse option"

text \<open>
  Of an \<^verbatim>\<open>http.Request\<close> the handlers read the \<^verbatim>\<open>Host\<close> and the headers, through
  \<^verbatim>\<open>Header.Get\<close>, which answers the empty string for an absent header.
\<close>

record Request =
  Host :: string
  Header_Get :: "string \<Rightarrow> string"

record URL =
  URL_Host :: string

datatype level = Debug | Warn | Error

datatype json = LogonJSON LogonResponse | HelloJSON HelloResponse

datatype panic = IndexOutOfRange | NilDereference

text \<open>
  The effects of a handler. \<open>ErrorPage code msg\<close> is \<^verbatim>\<open>i.ErrorPage(rw, code, "", msg)\<close>,
  \<open>Log l msg err\<close> a log line at level \<open>l\<close> with the error attached by \<^verbatim>\<open>WithError\<close>
  (the other log fields are left out), \<open>ServeHTTP\<close> the call of the wrapped handler,
  \<open>Panic p\<close> a run-time fault, which ends the handler. The constructors named
  \<open>Call_\<close> record the calls of the collaborators.
\<close>

datatype effect =
    Log level string "error option"
  | AddNoCacheResponseHeaders
  | Header_Set string string
  | WriteHeader nat
  | ErrorPage nat string
  | WriteJSON nat json
  | ServeHTTP
  | Call_GetUserFromLogonCookie
  | Call_resolveUser string
  | Call_backend_Logon string string
  | Call_updateUser IdentifiedUser
  | Call_setLogonCookie IdentifiedUser
  | Call_clients_Lookup string string
  | Panic panic

text \<open>
  The collaborators of the identifier. A Go function that returns \<^verbatim>\<open>(value, error)\<close>
  answers a pair here when the handler reads both components, and a sum when it reads the
  value only without an error. \<open>updateUser\<close> gets a pointer and may change the user, so it
  answers the changed user. \<open>Hello_parse\<close> is \<^verbatim>\<open>HelloRequest.parse\<close>, which fills
  the prompts and scopes of the request in place. \<open>url_Parse\<close> is \<^verbatim>\<open>net/url.Parse\<close>.
\<close>

record Identifier =
  GetUserFromLogonCookie :: "Request \<Rightarrow> IdentifiedUser option \<times> error option"
  resolveUser :: "string \<Rightarrow> IdentifiedUser option \<times> error option"
  backend_Logon :: "string \<Rightarrow> string \<Rightarrow> bool \<times> string option \<times> error option"
  updateUser :: "IdentifiedUser \<Rightarrow> IdentifiedUser \<times> error option"
  setLogonCookie :: "IdentifiedUser \<Rightarrow> error option"
  clients_Lookup :: "string \<Rightarrow> string \<Rightarrow> error + ClientDetails"
  authorizationEndpointURI :: string
  Hello_parse :: "HelloRequest \<Rightarrow> error + HelloRequest"
  utils_WriteJSON :: "nat \<Rightarrow> json \<Rightarrow> error option"
  url_Parse :: "string \<Rightarrow> error + URL"

text \<open>The pattern \<^verbatim>\<open>if err != nil { logger.WithError(err).X(msg) }\<close>.\<close>

definition logIf :: "level \<Rightarrow> string \<Rightarrow> error option \<Rightarrow> effect list" where
  "logIf l msg err = (case err of None \<Rightarrow> [] | Some e \<Rightarrow> [Log l msg (Some e)])"

section \<open>Handlers: the security middleware\<close>

text \<open>
  \<^verbatim>\<open>secureHandler\<close>. The body of its \<^verbatim>\<open>for\<close> runs once: every path either breaks with
  \<^verbatim>\<open>err\<close> set or serves the wrapped handler and returns. \<open>secureCheck\<close> is the loop body,
  answering the error of a \<^verbatim>\<open>break\<close> or the effects before \<^verbatim>\<open>handler.ServeHTTP\<close>.
\<close>

definition secureCheck :: "Identifier \<Rightarrow> Request \<Rightarrow> error + effect list" where
  "secureCheck i req =
    (let requiredHost = Host req in
     if Header_Get req ''Kopano-Konnect-XSRF'' \<noteq> ''1'' then Inl ''missing xsrf header''
     else
       let origin = Header_Get req ''Origin'';
           referer = Header_Get req ''Referer''
       in
       if origin = [] \<and> referer = [] then Inl ''missing origin or referer header''
       else if origin \<noteq> [] then
         (case url_Parse i origin of
            Inl urlParseErr \<Rightarrow> Inl (''invalid origin value: '' @ urlParseErr)
          | Inr originURL \<Rightarrow>
              if URL_Host originURL \<noteq> requiredHost then Inl ''origin does not match request URL''
              else Inr [])
       else if referer \<noteq> [] then
         (case url_Parse i referer of
            Inl urlParseErr \<Rightarrow> Inl (''invalid referer value: '' @ urlParseErr)
          | Inr refererURL \<Rightarrow>
              if URL_Host refererURL \<noteq> requiredHost then Inl ''referer does not match request URL''
              else Inr [])
       else
         Inr [Log Warn ''identifier HTTP request is insecure with no Origin and Referer'' None])"

definition secureHandler :: "Identifier \<Rightarrow> (Request \<Rightarrow> effect list) \<Rightarrow> Request \<Rightarrow> effect list" where
  "secureHandler i handler req =
    (case secureCheck i req of
       Inr effs \<Rightarrow> effs @ ServeHTTP # handler req
     | Inl err \<Rightarrow>
         [Log Warn ''rejecting identifier HTTP request'' (Some err),
          ErrorPage 400 []])"

section \<open>Handlers: Hello\<close>

text \<open>
  \<^verbatim>\<open>newHelloResponse\<close> in three parts. \<open>helloIdentify\<close> is the body of the loop
  \<^verbatim>\<open>handleHelloLoop\<close> after the check of the prompts: the user the caller passed, else
  the logon cookie, else the header a front-end proxy injects. \<open>helloFlow\<close> is the code
  after the loop. The function answers its effects and the pair \<^verbatim>\<open>(*HelloResponse, error)\<close>
  as a sum.
\<close>

definition helloIdentify ::
  "Identifier \<Rightarrow> Request \<Rightarrow> IdentifiedUser option \<Rightarrow> HelloResponse \<Rightarrow> effect list \<times> HelloResponse"
where
  "helloIdentify i req identifiedUser response =
    (let (identifiedUser1, effs) =
           (case identifiedUser of
              None \<Rightarrow>
                (case GetUserFromLogonCookie i req of
                   (u, err) \<Rightarrow>
                     (u, Call_GetUserFromLogonCookie #
                         logIf Debug ''identifier failed to decode logon cookie in hello'' err))
            | Some u \<Rightarrow> (Some u, []));
         response1 =
           (case identifiedUser1 of
              None \<Rightarrow> response
            | Some u \<Rightarrow> response\<lparr>Resp_Username := Username u, Resp_DisplayName := Name u\<rparr>)
     in
     if identifiedUser1 \<noteq> None \<and> Resp_Username response1 \<noteq> [] then
       (effs, response1\<lparr>Resp_Success := True\<rparr>)
     else
       let forwardedUser = Header_Get req ''X-Forwarded-User'' in
       if forwardedUser \<noteq> [] then
         (effs, response1\<lparr>Resp_Username := forwardedUser, Resp_Success := True\<rparr>)
       else (effs, response1))"

definition helloFlow ::
  "Identifier \<Rightarrow> HelloRequest \<Rightarrow> HelloResponse \<Rightarrow> effect list \<times> (error + HelloResponse)"
where
  "helloFlow i r response =
    (if \<not> Resp_Success response then ([], Inr response)
     else if Hello_Flow r = FlowOAuth \<or> Hello_Flow r = FlowConsent \<or> Hello_Flow r = FlowOIDC then
       (case clients_Lookup i (Hello_ClientID r) (Hello_RedirectURI r) of
          Inl err \<Rightarrow> ([Call_clients_Lookup (Hello_ClientID r) (Hello_RedirectURI r)], Inl err)
        | Inr clientDetails \<Rightarrow>
            let promptConsent = (Hello_Prompts r PromptConsent \<or> \<not> Client_Trusted clientDetails);
                response1 =
                  (if promptConsent then
                     response\<lparr>Resp_Next := FlowConsent,
                               Resp_RequestedScopes := Hello_Scopes r,
                               Resp_ClientDetails := Some clientDetails\<rparr>
                   else response)
            in ([Call_clients_Lookup (Hello_ClientID r) (Hello_RedirectURI r)],
                Inr (response1\<lparr>Resp_ContinueURI := authorizationEndpointURI i,
                               Resp_Flow := Hello_Flow r\<rparr>)))
     else ([], Inr response))"

definition newHelloResponse ::
  "Identifier \<Rightarrow> Request \<Rightarrow> HelloRequest \<Rightarrow> IdentifiedUser option
    \<Rightarrow> effect list \<times> (error + HelloResponse)"
where
  "newHelloResponse i req r identifiedUser =
    (let response = \<lparr>Resp_State = Hello_State r, Resp_Flow = [], Resp_Success = False,
                      Resp_Username = [], Resp_DisplayName = [], Resp_Next = [],
                      Resp_ContinueURI = [], Resp_RequestedScopes = (\<lambda>_. False),
                      Resp_ClientDetails = None\<rparr>
     in
     if Hello_Prompts r PromptNone then ([], Inl ''prompt none requested'')
     else if Hello_Prompts r PromptLogin then helloFlow i r response
     else
       (case helloIdentify i req identifiedUser response of
          (effs, response1) \<Rightarrow>
            (case helloFlow i r response1 of (effs1, res) \<Rightarrow> (effs @ effs1, res))))"

text \<open>
  \<^verbatim>\<open>handleHello\<close>. The argument \<open>decoded\<close> is what \<^verbatim>\<open>decoder.Decode(&r)\<close> gives for
  the body of the request: an error or the request.
\<close>

definition handleHello :: "Identifier \<Rightarrow> Request \<Rightarrow> error + HelloRequest \<Rightarrow> effect list" where
  "handleHello i req decoded =
    (case decoded of
       Inl err \<Rightarrow>
         [Log Debug ''identifier failed to decode hello request'' (Some err),
          ErrorPage 400 ''failed to decode request JSON'']
     | Inr r0 \<Rightarrow>
         (case Hello_parse i r0 of
            Inl err \<Rightarrow>
              [Log Debug ''identifier failed to parse hello request'' (Some err),
               ErrorPage 400 ''failed to parse request values'']
          | Inr r \<Rightarrow>
              AddNoCacheResponseHeaders #
              (case newHelloResponse i req r None of
                 (effs, Inl err) \<Rightarrow>
                   effs @ [Log Debug ''rejecting identifier hello request'' (Some err),
                           ErrorPage 400 err]
               | (effs, Inr response) \<Rightarrow>
                   if \<not> Resp_Success response then
                     effs @ [Header_Set ''Kopano-Konnect-State'' (Resp_State response),
                             WriteHeader 204]
                   else
                     effs @ WriteJSON 200 (HelloJSON response) #
                       logIf Error ''hello request failed writing response''
                         (utils_WriteJSON i 200 (HelloJSON response)))))"

section \<open>Handlers: Logon\<close>

text \<open>
  The first part of \<^verbatim>\<open>handleLogon\<close> is a \<^verbatim>\<open>for\<close> whose body runs once and leaves
  \<^verbatim>\<open>user\<close> set or \<^verbatim>\<open>nil\<close>, unless the handler returns from inside it. A part of the
  handler answers its effects and how it ended: \<open>Proceed v\<close> when control goes on with the
  value \<open>v\<close>, \<open>Returned\<close> when the handler has returned (or has panicked).

  Go checks every index: \<^verbatim>\<open>params[n]\<close> panics when \<^verbatim>\<open>n >= len(params)\<close>. \<open>at\<close> is that
  read; the code after it is the continuation \<open>k\<close>. The conditions joined by \<^verbatim>\<open>&&\<close> are
  nested in the order Go evaluates them, so that a read happens in the model exactly when
  it happens in the code.
\<close>

datatype 'a control = Proceed 'a | Returned

definition at ::
  "string list \<Rightarrow> nat \<Rightarrow> (string \<Rightarrow> effect list \<times> 'a control) \<Rightarrow> effect list \<times> 'a control"
where
  "at params n k =
    (if n < length params then k (params ! n) else ([Panic IndexOutOfRange], Returned))"

definition after ::
  "effect list \<Rightarrow> effect list \<times> 'a control \<Rightarrow> effect list \<times> 'a control"
where
  "after effs r = (effs @ fst r, snd r)"

text \<open>The last branch of the loop: user name and password, checked by the backend.\<close>

definition logonBackend ::
  "Identifier \<Rightarrow> string list \<Rightarrow> effect list \<times> IdentifiedUser option control"
where
  "logonBackend i params =
    (if length params \<ge> 3 then
       at params 2 (\<lambda>mode.
         if mode = ''1'' then
           at params 0 (\<lambda>p0. at params 1 (\<lambda>p1.
             (case backend_Logon i p0 p1 of
                (success, subject, err) \<Rightarrow>
                  after [Call_backend_Logon p0 p1]
                    (case err of
                       Some e \<Rightarrow>
                         ([Log Error ''identifier failed to logon with backend'' (Some e),
                           ErrorPage 500 ''failed to logon''], Returned)
                     | None \<Rightarrow>
                         if success then
                           (case subject of
                              None \<Rightarrow> ([Panic NilDereference], Returned)
                            | Some s \<Rightarrow>
                                at params 0 (\<lambda>name.
                                  ([], Proceed (Some \<lparr>user_sub = s, user_username = name, user_displayName = []\<rparr>))))
                         else ([], Proceed None)))))
         else ([], Proceed None))
     else ([], Proceed None))"

text \<open>The branch of the empty password, and before it the branch of the proxy header.\<close>

definition logonPassword ::
  "Identifier \<Rightarrow> string list \<Rightarrow> effect list \<times> IdentifiedUser option control"
where
  "logonPassword i params =
    (if length params \<ge> 2 then
       at params 1 (\<lambda>password. if password = [] then ([], Proceed None) else logonBackend i params)
     else logonBackend i params)"

definition logonForwarded ::
  "Identifier \<Rightarrow> Request \<Rightarrow> string list \<Rightarrow> effect list \<times> IdentifiedUser option control"
where
  "logonForwarded i req params =
    (let forwardedUser = Header_Get req ''X-Forwarded-User'' in
     if forwardedUser \<noteq> [] then
       (if length params \<ge> 1 then
          at params 0 (\<lambda>p0.
            if forwardedUser = p0 then
              at params 0 (\<lambda>name.
                (case resolveUser i name of
                   (user, err) \<Rightarrow>
                     after [Call_resolveUser name]
                       (case err of
                          Some e \<Rightarrow>
                            ([Log Error ''identifier failed to resolve user with backend'' (Some e),
                              ErrorPage 500 ''failed to resolve user''], Returned)
                        | None \<Rightarrow> ([], Proceed user))))
            else ([], Proceed None))
        else ([], Proceed None))
     else logonPassword i params)"

text \<open>The whole loop, from its first branch: the same user is logged in by the cookie.\<close>

definition logonCookie ::
  "Identifier \<Rightarrow> Request \<Rightarrow> string list \<Rightarrow> effect list \<times> IdentifiedUser option control"
where
  "logonCookie i req params =
    (case GetUserFromLogonCookie i req of
       (identifiedUser, cookieErr) \<Rightarrow>
         after (Call_GetUserFromLogonCookie #
                logIf Debug ''identifier failed to decode logon cookie in logon request'' cookieErr)
           (case identifiedUser of
              None \<Rightarrow> logonForwarded i req params
            | Some u \<Rightarrow>
                at params 0 (\<lambda>p0.
                  if Username u = p0 then ([], Proceed (Some u))
                  else logonForwarded i req params)))"

definition logonUser ::
  "Identifier \<Rightarrow> Request \<Rightarrow> string list \<Rightarrow> effect list \<times> IdentifiedUser option control"
where
  "logonUser i req params =
    (if length params \<ge> 3 then
       at params 1 (\<lambda>password.
         if password = [] then
           at params 2 (\<lambda>mode.
             if mode = ''1'' then logonCookie i req params
             else logonForwarded i req params)
         else logonForwarded i req params)
     else logonForwarded i req params)"

text \<open>
  The handler after the loop, for a user with a subject: the refresh of the user's data,
  the nested Hello, the logon cookie and the response.
\<close>

definition logonHello ::
  "Identifier \<Rightarrow> Request \<Rightarrow> LogonRequest \<Rightarrow> IdentifiedUser
    \<Rightarrow> effect list \<times> HelloResponse option control"
where
  "logonHello i req r user =
    (case Logon_Hello r of
       None \<Rightarrow> ([], Proceed None)
     | Some h0 \<Rightarrow>
         (case Hello_parse i h0 of
            Inl err \<Rightarrow>
              ([Log Debug ''identifier failed to parse logon request hello'' (Some err),
                ErrorPage 400 ''failed to parse request values''], Returned)
          | Inr h \<Rightarrow>
              (case newHelloResponse i req h (Some user) of
                 (effs, Inl errHello) \<Rightarrow>
                   (effs @ [Log Debug ''rejecting identifier logon request'' (Some errHello),
                            ErrorPage 400 errHello], Returned)
               | (effs, Inr hello) \<Rightarrow>
                   if \<not> Resp_Success hello then
                     (effs @ [Header_Set ''Kopano-Konnect-State'' (Logon_State r),
                              WriteHeader 204], Returned)
                   else (effs, Proceed (Some hello)))))"

definition logonFinish :: "Identifier \<Rightarrow> Request \<Rightarrow> LogonRequest \<Rightarrow> IdentifiedUser \<Rightarrow> effect list" where
  "logonFinish i req r user0 =
    (case updateUser i user0 of
       (user, err) \<Rightarrow>
         Call_updateUser user0 #
         logIf Debug ''identifier failed to update user data in logon request'' err @
         (case logonHello i req r user of
            (effs, Returned) \<Rightarrow> effs
          | (effs, Proceed hello) \<Rightarrow>
              effs @ Call_setLogonCookie user #
              (case setLogonCookie i user of
                 Some e \<Rightarrow>
                   [Log Error ''failed to serialize logon ticket'' (Some e),
                    ErrorPage 500 ''failed to serialize logon ticket'']
               | None \<Rightarrow>
                   let response = \<lparr>LogonResp_State = Logon_State r, LogonResp_Success = True,
                                     LogonResp_Hello = hello\<rparr>
                   in WriteJSON 200 (LogonJSON response) #
                      logIf Error ''logon request failed writing response''
                        (utils_WriteJSON i 200 (LogonJSON response)))))"

definition handleLogon :: "Identifier \<Rightarrow> Request \<Rightarrow> error + LogonRequest \<Rightarrow> effect list" where
  "handleLogon i req decoded =
    (case decoded of
       Inl err \<Rightarrow>
         [Log Debug ''identifier failed to decode logon request'' (Some err),
          ErrorPage 400 ''failed to decode request JSON'']
     | Inr r \<Rightarrow>
         AddNoCacheResponseHeaders #
         (case logonUser i req (Logon_Params r) of
            (effs, Returned) \<Rightarrow> effs
          | (effs, Proceed user) \<Rightarrow>
              effs @
              (case user of
                 None \<Rightarrow> [Header_Set ''Kopano-Konnect-State'' (Logon_State r), WriteHeader 204]
               | Some u \<Rightarrow>
                   if Subject u = [] then
                     [Header_Set ''Kopano-Konnect-State'' (Logon_State r), WriteHeader 204]
                   else logonFinish i req r u)))"

section \<open>Handlers: observations and sample inputs\<close>

text \<open>
  What the middleware does when it rejects: one log line with the reason, then the error
  page 400 with an empty message, so that the reason does not reach the client.
\<close>

fun rejected :: "effect list \<Rightarrow> bool" where
  "rejected [Log Warn msg (Some reason), ErrorPage code body] =
     (msg = ''rejecting identifier HTTP request'' \<and> code = 400 \<and> body = [])"
| "rejected effs = False"

text \<open>The status codes a handler writes, in order.\<close>

fun status :: "effect \<Rightarrow> nat list" where
  "status (WriteHeader code) = [code]"
| "status (ErrorPage code msg) = [code]"
| "status (WriteJSON code body) = [code]"
| "status e = []"

definition statuses :: "effect list \<Rightarrow> nat list" where
  "statuses effs = concat (map status effs)"

text \<open>
  An identifier to evaluate the handlers on: no logon cookie, a backend that knows the user
  alice with the password secret, a client registry that trusts every client, a URL parser
  that reads the host after the scheme \<^verbatim>\<open>https://\<close>, and collaborators that do not fail.
\<close>

definition sampleIdentifier :: Identifier where
  "sampleIdentifier =
    \<lparr>GetUserFromLogonCookie = (\<lambda>req. (None, None)),
     resolveUser = (\<lambda>name. (None, None)),
     backend_Logon = (\<lambda>name password.
       if name = ''alice'' \<and> password = ''secret'' then (True, Some ''uid=alice'', None)
       else (False, None, None)),
     updateUser = (\<lambda>user. (user, None)),
     setLogonCookie = (\<lambda>user. None),
     clients_Lookup = (\<lambda>clientID redirectURI. Inr \<lparr>Client_ID = clientID, Client_Trusted = True\<rparr>),
     authorizationEndpointURI = ''https://op.example/authorize'',
     Hello_parse = Inr,
     utils_WriteJSON = (\<lambda>code body. None),
     url_Parse = (\<lambda>s. Inr \<lparr>URL_Host = drop 8 s\<rparr>)\<rparr>"

definition sampleHandler :: "Request \<Rightarrow> effect list" where
  "sampleHandler req = [WriteHeader 200]"

definition sampleRequest :: "(string \<times> string) list \<Rightarrow> Request" where
  "sampleRequest headers =
    \<lparr>Host = ''op.example'',
     Header_Get = (\<lambda>name. case map_of headers name of None \<Rightarrow> [] | Some v \<Rightarrow> v)\<rparr>"

definition sampleHello :: "string \<Rightarrow> string list \<Rightarrow> HelloRequest" where
  "sampleHello flow prompts =
    \<lparr>Hello_State = ''st'', Hello_Flow = flow, Hello_Prompts = (\<lambda>p. p \<in> set prompts),
     Hello_Scopes = (\<lambda>s. s = ''openid''), Hello_ClientID = ''client'',
     Hello_RedirectURI = ''https://rp.example/cb''\<rparr>"

definition sampleLogon :: "string list \<Rightarrow> HelloRequest option \<Rightarrow> LogonRequest" where
  "sampleLogon params hello = \<lparr>Logon_State = ''st'', Logon_Params = params, Logon_Hello = hello\<rparr>"


section \<open>Directory backend: errors and the URL query encoding\<close>

text \<open>
  The Go \<^verbatim>\<open>error\<close> values of the backend: \<open>LDAPError code\<close> is an \<^verbatim>\<open>*ldap.Error\<close> with
  that result code (\<^verbatim>\<open>ldap.NewError\<close>), \<open>Errorf msg\<close> any other error with its message,
  \<open>Wrapped msg err\<close> the error \<^verbatim>\<open>fmt.Errorf(msg + "%v", err)\<close>. \<open>IsErrorWithCode\<close> is the
  function of package \<^verbatim>\<open>ldap\<close>: true for an \<^verbatim>\<open>*ldap.Error\<close> with the code, false for
  \<^verbatim>\<open>nil\<close> and for every other error. The result codes are those of the LDAP protocol.
\<close>

datatype goerror = LDAPError nat | Errorf string | Wrapped string goerror

fun IsErrorWithCode :: "goerror option \<Rightarrow> nat \<Rightarrow> bool" where
  "IsErrorWithCode (Some (LDAPError resultCode)) desiredResultCode = (resultCode = desiredResultCode)"
| "IsErrorWithCode err desiredResultCode = False"

definition LDAPResultNoSuchObject :: nat where "LDAPResultNoSuchObject = 32"

definition LDAPResultInvalidCredentials :: nat where "LDAPResultInvalidCredentials = 49"

definition ErrorNetwork :: nat where "ErrorNetwork = 200"

definition NeverDerefAliases :: nat where "NeverDerefAliases = 0"

text \<open>
  The entry ID of the sub-attribute mapping is built by \<^verbatim>\<open>url.Values.Encode\<close> and read by
  \<^verbatim>\<open>url.ParseQuery\<close> of the Go standard library \<^verbatim>\<open>net/url\<close>. Both are modelled here on
  bytes (a \<open>char\<close> is a byte). \<open>QueryEscape\<close> keeps letters, digits and \<^verbatim>\<open>-_.~\<close>, writes
  a space as \<^verbatim>\<open>+\<close> and every other byte as \<^verbatim>\<open>%XX\<close> in upper-case hexadecimal.
  \<open>QueryUnescape\<close> reads \<^verbatim>\<open>+\<close> as a space and \<^verbatim>\<open>%XX\<close> as the byte, and fails on a
  \<^verbatim>\<open>%\<close> that two hexadecimal digits do not follow.
\<close>

definition upperhex :: string where
  "upperhex = ''0123456789ABCDEF''"

definition ishex :: "char \<Rightarrow> bool" where
  "ishex c = (CHR ''0'' \<le> c \<and> c \<le> CHR ''9'' \<or> CHR ''a'' \<le> c \<and> c \<le> CHR ''f''
              \<or> CHR ''A'' \<le> c \<and> c \<le> CHR ''F'')"

definition unhex :: "char \<Rightarrow> nat" where
  "unhex c =
    (if CHR ''0'' \<le> c \<and> c \<le> CHR ''9'' then of_char c - of_char CHR ''0''
     else if CHR ''a'' \<le> c \<and> c \<le> CHR ''f'' then of_char c - of_char CHR ''a'' + 10
     else if CHR ''A'' \<le> c \<and> c \<le> CHR ''F'' then of_char c - of_char CHR ''A'' + 10
     else 0)"

definition shouldEscape :: "char \<Rightarrow> bool" where
  "shouldEscape c =
    (if CHR ''a'' \<le> c \<and> c \<le> CHR ''z'' \<or> CHR ''A'' \<le> c \<and> c \<le> CHR ''Z''
        \<or> CHR ''0'' \<le> c \<and> c \<le> CHR ''9'' then False
     else if c \<in> {CHR ''-'', CHR ''_'', CHR ''.'', CHR ''~''} then False
     else True)"

fun QueryEscape :: "string \<Rightarrow> string" where
  "QueryEscape [] = []"
| "QueryEscape (c # s) =
    (if c = CHR '' '' then CHR ''+'' # QueryEscape s
     else if shouldEscape c then
       CHR ''%'' # upperhex ! (of_char c div 16) # upperhex ! (of_char c mod 16) # QueryEscape s
     else c # QueryEscape s)"

fun QueryUnescape :: "string \<Rightarrow> goerror + string" where
  "QueryUnescape [] = Inr []"
| "QueryUnescape (c # s) =
    (if c = CHR ''%'' then
       (case s of
          h1 # h2 # rest \<Rightarrow>
            if ishex h1 \<and> ishex h2 then
              (case QueryUnescape rest of
                 Inl err \<Rightarrow> Inl err
               | Inr t \<Rightarrow> Inr (char_of (unhex h1 * 16 + unhex h2) # t))
            else Inl (Errorf (''invalid URL escape '' @ take 3 (c # s)))
        | _ \<Rightarrow> Inl (Errorf (''invalid URL escape '' @ take 3 (c # s))))
     else
       (case QueryUnescape s of
          Inl err \<Rightarrow> Inl err
        | Inr t \<Rightarrow> Inr ((if c = CHR ''+'' then CHR '' '' else c) # t)))"

text \<open>
  A \<^verbatim>\<open>url.Values\<close> is a \<^verbatim>\<open>map[string][]string\<close>: an association list with one entry
  for a key. \<open>Values_get\<close> reads a key (\<^verbatim>\<open>nil\<close>, the empty list, when it is missing) and
  \<open>Values_set\<close> is the assignment \<^verbatim>\<open>values[k] = v\<close>. \<open>Encode\<close> sorts the keys
  (\<^verbatim>\<open>sort.Strings\<close>, the order of the bytes) and writes, for every key and every value of
  the key in order, \<^verbatim>\<open>key=value\<close> escaped, with \<^verbatim>\<open>&\<close> before it when the buffer is not
  empty.
\<close>

type_synonym Values = "(string \<times> string list) list"

definition Values_get :: "Values \<Rightarrow> string \<Rightarrow> string list" where
  "Values_get v k = (case map_of v k of None \<Rightarrow> [] | Some vs \<Rightarrow> vs)"

definition Values_set :: "Values \<Rightarrow> string \<Rightarrow> string list \<Rightarrow> Values" where
  "Values_set v k vs = AList.update k vs v"

definition writePair :: "string \<Rightarrow> string \<Rightarrow> string \<Rightarrow> string" where
  "writePair buf k v =
     (if buf \<noteq> [] then buf @ ''&'' else buf) @ QueryEscape k @ ''='' @ QueryEscape v"

definition Encode :: "Values \<Rightarrow> string" where
  "Encode v =
     foldl (\<lambda>buf k. foldl (\<lambda>buf val. writePair buf k val) buf (Values_get v k))
       [] (sort (map fst v))"

text \<open>
  \<open>parseQuery\<close> is the loop of \<^verbatim>\<open>url.ParseQuery\<close>: it cuts the query at the next
  \<^verbatim>\<open>&\<close>, skips an empty part, records an error for a part with a semicolon or with an
  invalid escape (and goes on), and otherwise cuts the part at its first \<^verbatim>\<open>=\<close>, unescapes
  both sides and appends the value to the values of the key. \<open>Cut s sep\<close> is
  \<^verbatim>\<open>strings.Cut\<close> for a separator of one byte. The loop ends because the rest of the query
  gets shorter. (Before Go 1.17 a semicolon separated parts as \<^verbatim>\<open>&\<close> does; an encoded
  entry ID has no semicolon, \<open>QueryEscape\<close> escapes it.)
\<close>

definition Cut :: "string \<Rightarrow> char \<Rightarrow> string \<times> string" where
  "Cut s sep = (takeWhile (\<lambda>c. c \<noteq> sep) s, drop 1 (dropWhile (\<lambda>c. c \<noteq> sep) s))"

lemma Cut_shorter: "query \<noteq> [] \<Longrightarrow> length (snd (Cut query sep)) < length query"
proof -
  assume "query \<noteq> []"
  moreover have "length (dropWhile (\<lambda>c. c \<noteq> sep) query) \<le> length query"
    by (rule length_dropWhile_le)
  ultimately show ?thesis
    by (cases query) (auto simp add: Cut_def)
qed

definition firstError :: "goerror option \<Rightarrow> goerror \<Rightarrow> goerror option" where
  "firstError err err1 = (if err = None then Some err1 else err)"

function parseQuery :: "Values \<Rightarrow> string \<Rightarrow> goerror option \<Rightarrow> Values \<times> goerror option" where
  "parseQuery m query err =
    (if query = [] then (m, err)
     else if CHR '';'' \<in> set (fst (Cut query CHR ''&'')) then
       parseQuery m (snd (Cut query CHR ''&''))
         (Some (Errorf ''invalid semicolon separator in query''))
     else if fst (Cut query CHR ''&'') = [] then parseQuery m (snd (Cut query CHR ''&'')) err
     else
       (case QueryUnescape (fst (Cut (fst (Cut query CHR ''&'')) CHR ''='')) of
          Inl err1 \<Rightarrow> parseQuery m (snd (Cut query CHR ''&'')) (firstError err err1)
        | Inr key \<Rightarrow>
            (case QueryUnescape (snd (Cut (fst (Cut query CHR ''&'')) CHR ''='')) of
               Inl err1 \<Rightarrow> parseQuery m (snd (Cut query CHR ''&'')) (firstError err err1)
             | Inr value \<Rightarrow>
                 parseQuery (Values_set m key (Values_get m key @ [value]))
                   (snd (Cut query CHR ''&'')) err)))"
  by pat_completeness auto

termination
  by (relation "measure (\<lambda>(m, query, err). length query)") (simp_all add: Cut_shorter)

declare parseQuery.simps [simp del]

definition ParseQuery :: "string \<Rightarrow> Values \<times> goerror option" where
  "ParseQuery query = parseQuery [] query None"

section \<open>Directory backend: data\<close>

text \<open>
  An \<^verbatim>\<open>ldap.Entry\<close> has a DN and attributes with their values; \<open>GetAttributeValues\<close>
  answers the values of the first attribute with exactly that name, or none, and
  \<open>GetAttributeValue\<close> the first of them, or the empty string.
\<close>

record EntryAttribute =
  Attr_Name :: string
  Attr_Values :: "string list"

record Entry =
  DN :: string
  Attributes :: "EntryAttribute list"

definition GetAttributeValues :: "Entry \<Rightarrow> string \<Rightarrow> string list" where
  "GetAttributeValues e attribute =
    (case find (\<lambda>attr. Attr_Name attr = attribute) (Attributes e) of
       Some attr \<Rightarrow> Attr_Values attr
     | None \<Rightarrow> [])"

definition GetAttributeValue :: "Entry \<Rightarrow> string \<Rightarrow> string" where
  "GetAttributeValue e attribute =
    (case GetAttributeValues e attribute of [] \<Rightarrow> [] | v # vs \<Rightarrow> v)"

record SearchRequest =
  Search_BaseDN :: string
  Search_Scope :: nat
  Search_DerefAliases :: nat
  Search_SizeLimit :: nat
  Search_TimeLimit :: nat
  Search_TypesOnly :: bool
  Search_Filter :: string
  Search_Attributes :: "string list"

text \<open>
  The backend. The attribute mapping is a \<^verbatim>\<open>map[string]string\<close>, an association list;
  \<open>mapping_get\<close> reads it (the empty string for a missing key) and \<open>attributes\<close> lists
  the DN and its values (in the order of the list; Go leaves the order open, and the
  directory of the model may answer differently for every order). \<open>entryIDMapping\<close> is a
  slice that may be \<^verbatim>\<open>nil\<close>, which the code tests. The logger, the dialer and the TLS
  configuration are left out; the limiter is part of the world below.

  Modelled from the spec: the constants \<^verbatim>\<open>AttributeDN\<close> and \<^verbatim>\<open>AttributeLogin\<close> of the
  package of LDAP definitions are declared outside the two source files; the spec names the
  logical attribute "login". No theorem depends on their values.
\<close>

record LDAPIdentifierBackend =
  addr :: string
  isTLS :: bool
  bindDN :: string
  bindPassword :: string
  baseDN :: string
  scope :: nat
  searchFilter :: string
  getFilter :: string
  entryIDMapping :: "string list option"
  attributeMapping :: "(string \<times> string) list"
  timeout :: nat

definition AttributeDN :: string where "AttributeDN = ''dn''"

definition AttributeLogin :: string where "AttributeLogin = ''uid''"

definition mapping_get :: "(string \<times> string) list \<Rightarrow> string \<Rightarrow> string" where
  "mapping_get m k = (case map_of m k of None \<Rightarrow> [] | Some v \<Rightarrow> v)"

definition attributes :: "(string \<times> string) list \<Rightarrow> string list" where
  "attributes m = AttributeDN # map snd m"

text \<open>
  What is outside the backend: the limiter, the network and the directory server, as the
  answers they give (a \<open>Some\<close> is an error), and the library functions whose results the
  code only passes on: \<^verbatim>\<open>ldap.ParseDN\<close>, \<^verbatim>\<open>strings.EqualFold\<close>, and \<^verbatim>\<open>fmt.Sprintf\<close>
  with the search filter as its format and the user name as its argument.
  \<open>range_Values\<close> is the order in which a \<^verbatim>\<open>range\<close> over a \<^verbatim>\<open>url.Values\<close> visits the
  entries: Go leaves it open, every key is visited once. The theorems hold for every world.
\<close>

record World =
  limiter_Wait :: "goerror option"
  dialer_DialContext :: "goerror option"
  tls_Handshake :: "goerror option"
  ldap_Bind :: "string \<Rightarrow> string \<Rightarrow> goerror option"
  ldap_Search :: "SearchRequest \<Rightarrow> goerror + Entry list"
  ldap_ParseDN :: "string \<Rightarrow> goerror option"
  strings_EqualFold :: "string \<Rightarrow> string \<Rightarrow> bool"
  fmt_Sprintf :: "string \<Rightarrow> string \<Rightarrow> string"
  range_Values :: "Values \<Rightarrow> Values"

text \<open>
  Of the user that \<^verbatim>\<open>newLdapUser\<close> builds, \<open>Logon\<close> reads the backend claims only, which
  hold the entry ID; the attribute data of the user, which \<open>Logon\<close> never reads, is left
  out. The key of the claim is a constant declared outside the source files.
\<close>

datatype claim = IdentifiedUserIDClaim

record ldapUser =
  ldapUser_entryID :: string

definition newLdapUser :: "string \<Rightarrow> (string \<times> string) list \<Rightarrow> Entry \<Rightarrow> ldapUser" where
  "newLdapUser entryID mapping entry = \<lparr>ldapUser_entryID = entryID\<rparr>"

definition BackendClaims :: "ldapUser \<Rightarrow> (claim \<times> string) list" where
  "BackendClaims u = [(IdentifiedUserIDClaim, ldapUser_entryID u)]"

section \<open>Directory backend: connect, search and the entry ID\<close>

text \<open>
  \<^verbatim>\<open>connect\<close>: wait for the limiter, dial, shake hands when TLS is on, bind with the
  general user when one is configured. A failure to dial or to shake hands is reported as
  an \<^verbatim>\<open>ldap.Error\<close> with the code \<^verbatim>\<open>ErrorNetwork\<close>.
\<close>

definition connect :: "LDAPIdentifierBackend \<Rightarrow> World \<Rightarrow> goerror + unit" where
  "connect b w =
    (case limiter_Wait w of
       Some err \<Rightarrow> Inl err
     | None \<Rightarrow>
         (case dialer_DialContext w of
            Some err \<Rightarrow> Inl (LDAPError ErrorNetwork)
          | None \<Rightarrow>
              (case (if isTLS b then tls_Handshake w else None) of
                 Some err \<Rightarrow> Inl (LDAPError ErrorNetwork)
               | None \<Rightarrow>
                   if bindDN b \<noteq> [] then
                     (case ldap_Bind w (bindDN b) (bindPassword b) of
                        Some err \<Rightarrow> Inl err
                      | None \<Rightarrow> Inr ())
                   else Inr ())))"

text \<open>
  \<^verbatim>\<open>searchUsername\<close>: one search with a size limit of 1; no entry is the error
  "no such object", one entry is the result, more are an error.
\<close>

definition baseAndSearchFilterFromUsername ::
  "LDAPIdentifierBackend \<Rightarrow> World \<Rightarrow> string \<Rightarrow> string \<times> string" where
  "baseAndSearchFilterFromUsername b w username = (baseDN b, fmt_Sprintf w (searchFilter b) username)"

definition usernameSearchRequest ::
  "LDAPIdentifierBackend \<Rightarrow> World \<Rightarrow> string \<Rightarrow> string list \<Rightarrow> SearchRequest" where
  "usernameSearchRequest b w username attrs =
    (case baseAndSearchFilterFromUsername b w username of
       (base, filter') \<Rightarrow>
         \<lparr>Search_BaseDN = base, Search_Scope = scope b,
          Search_DerefAliases = NeverDerefAliases, Search_SizeLimit = 1,
          Search_TimeLimit = timeout b, Search_TypesOnly = False,
          Search_Filter = filter', Search_Attributes = attrs\<rparr>)"

definition searchUsername ::
  "LDAPIdentifierBackend \<Rightarrow> World \<Rightarrow> string \<Rightarrow> string list \<Rightarrow> goerror + Entry" where
  "searchUsername b w username attrs =
    (case ldap_Search w (usernameSearchRequest b w username attrs) of
       Inl err \<Rightarrow> Inl err
     | Inr entries \<Rightarrow>
         (case entries of
            [] \<Rightarrow> Inl (LDAPError LDAPResultNoSuchObject)
          | [entry] \<Rightarrow> Inr entry
          | _ \<Rightarrow> Inl (Errorf ''user too many entries returned'')))"

text \<open>
  \<^verbatim>\<open>entryIDFromEntry\<close>: with a mapping, the values of every mapped attribute that has
  values, encoded as a URL query; without, the DN. \<open>addValues\<close> is the body of its loop.
\<close>

definition addValues :: "Entry \<Rightarrow> Values \<Rightarrow> string \<Rightarrow> Values" where
  "addValues entry values k =
    (let v = GetAttributeValues entry k
     in if length v > 0 then Values_set values k v else values)"

definition entryValues :: "string list \<Rightarrow> Entry \<Rightarrow> Values" where
  "entryValues ks entry = foldl (addValues entry) [] ks"

definition entryIDFromEntry ::
  "LDAPIdentifierBackend \<Rightarrow> (string \<times> string) list \<Rightarrow> Entry \<Rightarrow> string" where
  "entryIDFromEntry b mapping entry =
    (case entryIDMapping b of
       Some ks \<Rightarrow> Encode (entryValues ks entry)
     | None \<Rightarrow> DN entry)"

text \<open>
  \<^verbatim>\<open>baseAndGetFilterFromEntryID\<close>: with a mapping, the entry ID is parsed as a URL query and
  every value of every key adds \<^verbatim>\<open>(key=value)\<close> to the filter, by
  \<^verbatim>\<open>fmt.Sprintf("%s(%s=%s)", filter, k, value)\<close>; the result is the base DN and the
  conjunction of the get-filter and these terms. Without a mapping the entry ID is a DN.
\<close>

definition equalityTerm :: "string \<Rightarrow> string \<Rightarrow> string" where
  "equalityTerm k value = ''('' @ k @ ''='' @ value @ '')''"

definition getFilterTerms :: "Values \<Rightarrow> string" where
  "getFilterTerms vs =
    foldl (\<lambda>filter' kv.
             foldl (\<lambda>filter' value. filter' @ equalityTerm (fst kv) value) filter' (snd kv))
      [] vs"

definition baseAndGetFilterFromEntryID ::
  "LDAPIdentifierBackend \<Rightarrow> World \<Rightarrow> string \<Rightarrow> string \<times> string" where
  "baseAndGetFilterFromEntryID b w entryID =
    (case entryIDMapping b of
       Some ks \<Rightarrow>
         (case ParseQuery entryID of
            (values, None) \<Rightarrow>
              let filter' = getFilterTerms (range_Values w values)
              in if filter' \<noteq> [] then (baseDN b, ''(&'' @ getFilter b @ filter' @ '')'')
                 else ([], [])
          | (values, Some err) \<Rightarrow> ([], []))
     | None \<Rightarrow>
         (case ldap_ParseDN w entryID of
            Some err \<Rightarrow> ([], [])
          | None \<Rightarrow> (entryID, getFilter b)))"

section \<open>Directory backend: Logon\<close>

text \<open>
  \<^verbatim>\<open>Logon\<close> returns \<^verbatim>\<open>(success, subject, sessionRef, claims, error)\<close>. \<open>fails err\<close> is
  \<^verbatim>\<open>return false, nil, nil, nil, err\<close>. The two \<^verbatim>\<open>switch\<close> statements test the error
  with \<open>IsErrorWithCode\<close>, which is false when there is no error.
\<close>

definition fails :: "goerror \<Rightarrow> bool \<times> string option \<times> string option \<times> (claim \<times> string) list option \<times> goerror option" where
  "fails err = (False, None, None, None, Some err)"

definition Logon ::
  "LDAPIdentifierBackend \<Rightarrow> World \<Rightarrow> string \<Rightarrow> string \<Rightarrow> string
    \<Rightarrow> bool \<times> string option \<times> string option \<times> (claim \<times> string) list option \<times> goerror option"
where
  "Logon b w audience username password =
    (let loginAttributeName = mapping_get (attributeMapping b) AttributeLogin in
     if loginAttributeName = [] then
       fails (Errorf ''ldap identifier backend logon impossible as no login attribute is set'')
     else
       (case connect b w of
          Inl err \<Rightarrow> fails (Wrapped ''ldap identifier backend logon connect error: '' err)
        | Inr l \<Rightarrow>
            (case searchUsername b w username (attributes (attributeMapping b)) of
               Inl err \<Rightarrow>
                 if IsErrorWithCode (Some err) LDAPResultNoSuchObject then
                   (False, None, None, None, None)
                 else fails (Wrapped ''ldap identifier backend logon search error: '' err)
             | Inr entry \<Rightarrow>
                 if \<not> strings_EqualFold w (GetAttributeValue entry loginAttributeName) username then
                   fails (Errorf ''ldap identifier backend logon search returned wrong user'')
                 else
                   (case ldap_Bind w (DN entry) password of
                      Some err \<Rightarrow>
                        if IsErrorWithCode (Some err) LDAPResultInvalidCredentials then
                          (False, None, None, None, None)
                        else fails (Wrapped ''ldap identifier backend logon error: '' err)
                    | None \<Rightarrow>
                        let entryID = entryIDFromEntry b (attributeMapping b) entry in
                        if entryID = [] then
                          fails (Errorf (''ldap identifier backend logon entry without entry ID: '' @ DN entry))
                        else
                          (True, Some entryID, None,
                           Some (BackendClaims (newLdapUser entryID (attributeMapping b) entry)),
                           None)))))"

definition succeeded ::
  "bool \<times> string option \<times> string option \<times> (claim \<times> string) list option \<times> goerror option \<Rightarrow> bool" where
  "succeeded r = fst r"

definition failure ::
  "bool \<times> string option \<times> string option \<times> (claim \<times> string) list option \<times> goerror option
    \<Rightarrow> goerror option" where
  "failure r = snd (snd (snd (snd r)))"

section \<open>Directory backend: GetUser\<close>

text \<open>
  \<^verbatim>\<open>getUser\<close> decodes the entry ID to a base and a filter and searches once: exactly one
  entry is the result. The scope is the base object when the base is the entry ID itself.
  \<^verbatim>\<open>GetUser\<close> connects, fetches the entry, and requires that the entry ID of the entry
  found is the entry ID asked for: the backend itself expects the fetch by an entry ID to
  resolve the entry the ID was made from. The session reference is not read.
\<close>

definition ScopeBaseObject :: nat where "ScopeBaseObject = 0"

definition getUser ::
  "LDAPIdentifierBackend \<Rightarrow> World \<Rightarrow> string \<Rightarrow> string list \<Rightarrow> goerror + Entry" where
  "getUser b w entryID attrs =
    (case baseAndGetFilterFromEntryID b w entryID of
       (base, filter') \<Rightarrow>
         if base = [] \<or> filter' = [] \<or> entryID = [] then
           Inl (Errorf (''ldap identifier backend get user invalid user ID: '' @ entryID))
         else
           (case ldap_Search w
                   \<lparr>Search_BaseDN = base,
                    Search_Scope = (if base = entryID then ScopeBaseObject else scope b),
                    Search_DerefAliases = NeverDerefAliases, Search_SizeLimit = 1,
                    Search_TimeLimit = timeout b, Search_TypesOnly = False,
                    Search_Filter = filter', Search_Attributes = attrs\<rparr> of
              Inl err \<Rightarrow> Inl err
            | Inr entries \<Rightarrow>
                (case entries of
                   [entry] \<Rightarrow> Inr entry
                 | _ \<Rightarrow> Inl (Errorf ''user does not exist or too many entries returned''))))"

definition GetUser ::
  "LDAPIdentifierBackend \<Rightarrow> World \<Rightarrow> string \<Rightarrow> string option \<Rightarrow> goerror + ldapUser" where
  "GetUser b w entryID sessionRef =
    (case connect b w of
       Inl err \<Rightarrow> Inl (Wrapped ''ldap identifier backend get user connect error: '' err)
     | Inr l \<Rightarrow>
         (case getUser b w entryID (attributes (attributeMapping b)) of
            Inl err \<Rightarrow> Inl (Wrapped ''ldap identifier backend get user error: '' err)
          | Inr entry \<Rightarrow>
              let newEntryID = entryIDFromEntry b (attributeMapping b) entry in
              if \<not> strings_EqualFold w newEntryID entryID then
                Inl (Errorf ''ldap identifier backend get user returned wrong user'')
              else Inr (newLdapUser newEntryID (attributeMapping b) entry)))"

section \<open>Directory backend: the encoding in the words of the spec, and sample inputs\<close>

text \<open>
  The spec's description of the entry ID: a URL query, the keys in the order of the
  attribute names, the values of a key in their order. \<open>sortedPairs\<close> lists the pairs of a
  multimap in this order and \<open>queryString\<close> writes pairs as \<^verbatim>\<open>key=value\<close>, escaped and
  joined by \<^verbatim>\<open>&\<close>. \<open>addPair\<close> adds one pair to a multimap. \<open>equalityTerms\<close> are the
  equality terms of one key. A multimap is well formed when a key has one entry and no list
  of values is empty; these are the multimaps \<open>entryIDFromEntry\<close> builds.
\<close>

definition segment :: "string \<times> string \<Rightarrow> string" where
  "segment p = QueryEscape (fst p) @ ''='' @ QueryEscape (snd p)"

fun queryString :: "(string \<times> string) list \<Rightarrow> string" where
  "queryString [] = []"
| "queryString [p] = segment p"
| "queryString (p # q # ps) = segment p @ ''&'' @ queryString (q # ps)"

definition sortedPairs :: "Values \<Rightarrow> (string \<times> string) list" where
  "sortedPairs v = concat (map (\<lambda>k. map (Pair k) (Values_get v k)) (sort (map fst v)))"

definition addPair :: "Values \<Rightarrow> string \<times> string \<Rightarrow> Values" where
  "addPair m p = Values_set m (fst p) (Values_get m (fst p) @ [snd p])"

definition equalityTerms :: "string \<times> string list \<Rightarrow> string" where
  "equalityTerms kv = concat (map (equalityTerm (fst kv)) (snd kv))"

definition wellFormed :: "Values \<Rightarrow> bool" where
  "wellFormed v = (distinct (map fst v) \<and> (\<forall>p \<in> set v. snd p \<noteq> []))"

text \<open>
  A backend whose subject is made of the attributes uid and mail, an entry with one uid and
  two mail values, and a world whose directory answers every search with the given entries,
  accepts the password secret only, and visits a map from its last entry to its first.
\<close>

definition sampleBackend :: LDAPIdentifierBackend where
  "sampleBackend =
    \<lparr>addr = ''ldap.example:389'', isTLS = False, bindDN = [], bindPassword = [],
     baseDN = ''dc=example'', scope = 2,
     searchFilter = ''(&((objectClass=inetOrgPerson))(uid=%s))'',
     getFilter = ''(objectClass=inetOrgPerson)'',
     entryIDMapping = Some [''uid'', ''mail''],
     attributeMapping = [(''uid'', ''uid''), (''mail'', ''mail'')],
     timeout = 60\<rparr>"

definition sampleEntry :: "string \<Rightarrow> Entry" where
  "sampleEntry name =
    \<lparr>DN = ''uid='' @ name @ '',dc=example'',
     Attributes = [\<lparr>Attr_Name = ''uid'', Attr_Values = [name]\<rparr>,
                   \<lparr>Attr_Name = ''mail'', Attr_Values = [name @ ''@example.org'', ''a b&c'']\<rparr>]\<rparr>"

definition sampleWorld :: "Entry list \<Rightarrow> World" where
  "sampleWorld found =
    \<lparr>limiter_Wait = None, dialer_DialContext = None, tls_Handshake = None,
     ldap_Bind = (\<lambda>dn password. if password = ''secret'' then None
                                  else Some (LDAPError LDAPResultInvalidCredentials)),
     ldap_Search = (\<lambda>request. Inr found),
     ldap_ParseDN = (\<lambda>dn. None),
     strings_EqualFold = (=),
     fmt_Sprintf = (\<lambda>format arg. format @ arg),
     range_Values = rev\<rparr>"

text \<open>
  A backend whose subject is made of the attribute cn alone, and three entries: one whose
  cn holds the characters that structure an LDAP filter, one with the two cn values Smith
  and Jones, and one whose cn has a remark in parentheses. The directory of
  \<open>cnWorld\<close> answers the search for the entries that have both cn values, Smith and Jones,
  with the second entry, as a directory does, and finds nothing for any other filter.
\<close>

definition cnBackend :: LDAPIdentifierBackend where
  "cnBackend = sampleBackend\<lparr>entryIDMapping := Some [''cn'']\<rparr>"

definition injectedEntry :: Entry where
  "injectedEntry =
    \<lparr>DN = ''uid=u1,dc=example'',
     Attributes = [\<lparr>Attr_Name = ''cn'', Attr_Values = [''Smith)(cn=Jones'']\<rparr>]\<rparr>"

definition smithJonesEntry :: Entry where
  "smithJonesEntry =
    \<lparr>DN = ''uid=u2,dc=example'',
     Attributes = [\<lparr>Attr_Name = ''cn'', Attr_Values = [''Smith'', ''Jones'']\<rparr>]\<rparr>"

definition remarkEntry :: Entry where
  "remarkEntry =
    \<lparr>DN = ''uid=u3,dc=example'',
     Attributes = [\<lparr>Attr_Name = ''cn'', Attr_Values = [''John (IT)'']\<rparr>]\<rparr>"

definition cnWorld :: World where
  "cnWorld =
    (sampleWorld [])\<lparr>ldap_Search :=
      (\<lambda>request.
         if Search_Filter request = ''(&(objectClass=inetOrgPerson)(cn=Smith)(cn=Jones))''
         then Inr [smithJonesEntry] else Inr [])\<rparr>"

section \<open>Handlers: the security middleware, theorems\<close>

lemma secureHandler_rejects:
  "secureCheck i req = Inl err \<Longrightarrow>
     secureHandler i handler req =
       [Log Warn ''rejecting identifier HTTP request'' (Some err), ErrorPage 400 []]"
  by (simp add: secureHandler_def)

text \<open>
  C2 (as the code has it). A request that carries the XSRF marker header and has neither an
  Origin nor a Referer header is rejected: the middleware logs the rejection with the reason
  "missing origin or referer header" and answers the error page 400; the wrapped handler is
  not served, whatever it is.
\<close>

theorem secureHandler_no_origin_no_referer_rejected:
  assumes "Header_Get req ''Kopano-Konnect-XSRF'' = ''1''"
    and "Header_Get req ''Origin'' = []"
    and "Header_Get req ''Referer'' = []"
  shows "secureHandler i handler req =
           [Log Warn ''rejecting identifier HTTP request'' (Some ''missing origin or referer header''),
            ErrorPage 400 []]"
proof -
  have "secureCheck i req = Inl ''missing origin or referer header''"
    using assms by (simp add: secureCheck_def Let_def)
  then show ?thesis by (rule secureHandler_rejects)
qed

theorem secureHandler_no_origin_no_referer_rejected_witness:
  "secureHandler sampleIdentifier sampleHandler
     (sampleRequest [(''Kopano-Konnect-XSRF'', ''1'')]) =
   [Log Warn ''rejecting identifier HTTP request'' (Some ''missing origin or referer header''),
    ErrorPage 400 []]"
  using secureHandler_no_origin_no_referer_rejected
    [of "sampleRequest [(''Kopano-Konnect-XSRF'', ''1'')]" sampleIdentifier sampleHandler]
  by (simp add: sampleRequest_def)

text \<open>
  C2 (as the spec has it) fails: for the request above, with the marker and without Origin
  and Referer, the wrapped handler is not served and the error page 400 is written.
\<close>

theorem secureHandler_degraded_mode_counterexample:
  "\<not> (ServeHTTP \<in> set (secureHandler sampleIdentifier sampleHandler
                        (sampleRequest [(''Kopano-Konnect-XSRF'', ''1'')]))
      \<and> 400 \<notin> set (statuses (secureHandler sampleIdentifier sampleHandler
                        (sampleRequest [(''Kopano-Konnect-XSRF'', ''1'')]))))"
  by (simp add: secureHandler_def secureCheck_def sampleRequest_def statuses_def Let_def)

text \<open>
  C6. The middleware rejects, with the error page 400, every request whose XSRF marker
  header is not "1", whatever its other headers are, and every request whose Origin header
  parses to a host other than the Host of the request; it serves the wrapped handler, and
  writes nothing itself, for a request with the marker whose Origin host is the Host of the
  request.
\<close>

theorem secureHandler_xsrf_and_origin:
  "(Header_Get req ''Kopano-Konnect-XSRF'' \<noteq> ''1'' \<longrightarrow>
      rejected (secureHandler i handler req) \<and>
      secureHandler i handler req =
        [Log Warn ''rejecting identifier HTTP request'' (Some ''missing xsrf header''),
         ErrorPage 400 []])
   \<and> (Header_Get req ''Origin'' \<noteq> [] \<and> url_Parse i (Header_Get req ''Origin'') = Inr originURL
        \<and> URL_Host originURL \<noteq> Host req \<longrightarrow>
      rejected (secureHandler i handler req))
   \<and> (Header_Get req ''Kopano-Konnect-XSRF'' = ''1'' \<and> Header_Get req ''Origin'' \<noteq> []
        \<and> url_Parse i (Header_Get req ''Origin'') = Inr originURL
        \<and> URL_Host originURL = Host req \<longrightarrow>
      secureHandler i handler req = ServeHTTP # handler req)"
proof (intro conjI impI)
  assume "Header_Get req ''Kopano-Konnect-XSRF'' \<noteq> ''1''"
  then have "secureCheck i req = Inl ''missing xsrf header''"
    by (simp add: secureCheck_def)
  then show "secureHandler i handler req =
      [Log Warn ''rejecting identifier HTTP request'' (Some ''missing xsrf header''), ErrorPage 400 []]"
    by (rule secureHandler_rejects)
  then show "rejected (secureHandler i handler req)" by simp
next
  assume a: "Header_Get req ''Origin'' \<noteq> [] \<and> url_Parse i (Header_Get req ''Origin'') = Inr originURL
        \<and> URL_Host originURL \<noteq> Host req"
  then have "\<exists>err. secureCheck i req = Inl err"
    by (auto simp add: secureCheck_def Let_def)
  then obtain err where "secureCheck i req = Inl err" ..
  then have "secureHandler i handler req =
      [Log Warn ''rejecting identifier HTTP request'' (Some err), ErrorPage 400 []]"
    by (rule secureHandler_rejects)
  then show "rejected (secureHandler i handler req)" by simp
next
  assume "Header_Get req ''Kopano-Konnect-XSRF'' = ''1'' \<and> Header_Get req ''Origin'' \<noteq> []
        \<and> url_Parse i (Header_Get req ''Origin'') = Inr originURL
        \<and> URL_Host originURL = Host req"
  then show "secureHandler i handler req = ServeHTTP # handler req"
    by (simp add: secureHandler_def secureCheck_def Let_def)
qed

theorem secureHandler_xsrf_and_origin_witness:
  "rejected (secureHandler sampleIdentifier sampleHandler
     (sampleRequest [(''Origin'', ''https://op.example'')]))
   \<and> rejected (secureHandler sampleIdentifier sampleHandler
     (sampleRequest [(''Kopano-Konnect-XSRF'', ''1''), (''Origin'', ''https://evil.example'')]))
   \<and> secureHandler sampleIdentifier sampleHandler
     (sampleRequest [(''Kopano-Konnect-XSRF'', ''1''), (''Origin'', ''https://op.example'')])
     = ServeHTTP # sampleHandler (sampleRequest [(''Kopano-Konnect-XSRF'', ''1''), (''Origin'', ''https://op.example'')])"
  using
    secureHandler_xsrf_and_origin
      [of "sampleRequest [(''Origin'', ''https://op.example'')]" sampleIdentifier
          sampleHandler "\<lparr>URL_Host = ''op.example''\<rparr>"]
    secureHandler_xsrf_and_origin
      [of "sampleRequest [(''Kopano-Konnect-XSRF'', ''1''), (''Origin'', ''https://evil.example'')]"
          sampleIdentifier sampleHandler "\<lparr>URL_Host = ''evil.example''\<rparr>"]
    secureHandler_xsrf_and_origin
      [of "sampleRequest [(''Kopano-Konnect-XSRF'', ''1''), (''Origin'', ''https://op.example'')]"
          sampleIdentifier sampleHandler "\<lparr>URL_Host = ''op.example''\<rparr>"]
  by (simp add: sampleRequest_def sampleIdentifier_def)

section \<open>Handlers: Hello, theorems\<close>

lemma newHelloResponse_none:
  "Hello_Prompts r PromptNone \<Longrightarrow>
     newHelloResponse i req r identifiedUser = ([], Inl ''prompt none requested'')"
  by (simp add: newHelloResponse_def Let_def)

lemma newHelloResponse_login:
  "\<not> Hello_Prompts r PromptNone \<Longrightarrow> Hello_Prompts r PromptLogin \<Longrightarrow>
     newHelloResponse i req r identifiedUser =
       ([], Inr \<lparr>Resp_State = Hello_State r, Resp_Flow = [], Resp_Success = False,
                 Resp_Username = [], Resp_DisplayName = [], Resp_Next = [],
                 Resp_ContinueURI = [], Resp_RequestedScopes = (\<lambda>_. False),
                 Resp_ClientDetails = None\<rparr>)"
  by (simp add: newHelloResponse_def helloFlow_def Let_def)

text \<open>
  C3 (as the code has it). A Hello request whose prompts include none fails whatever the
  cookie, the proxy header and the user passed by the caller are: \<open>newHelloResponse\<close>
  touches no collaborator and answers the error "prompt none requested". \<open>handleHello\<close>
  turns this error into the error page 400 with that message; it writes no 204.
\<close>

theorem handleHello_prompt_none:
  assumes "Hello_parse i r0 = Inr r" and "Hello_Prompts r PromptNone"
  shows "newHelloResponse i req r identifiedUser = ([], Inl ''prompt none requested'')
       \<and> handleHello i req (Inr r0) =
           [AddNoCacheResponseHeaders,
            Log Debug ''rejecting identifier hello request'' (Some ''prompt none requested''),
            ErrorPage 400 ''prompt none requested'']"
  using assms by (simp add: handleHello_def newHelloResponse_none)

theorem handleHello_prompt_none_witness:
  "handleHello sampleIdentifier (sampleRequest []) (Inr (sampleHello ''oidc'' [''none''])) =
     [AddNoCacheResponseHeaders,
      Log Debug ''rejecting identifier hello request'' (Some ''prompt none requested''),
      ErrorPage 400 ''prompt none requested'']"
  using handleHello_prompt_none
    [of sampleIdentifier "sampleHello ''oidc'' [''none'']" "sampleHello ''oidc'' [''none'']"
        "sampleRequest []" None]
  by (simp add: sampleIdentifier_def sampleHello_def PromptNone_def)

text \<open>
  C3 (as the spec has it) fails: the Hello request with the prompt none is answered with the
  status 400, an error page, and not with 204.
\<close>

theorem handleHello_prompt_none_counterexample:
  "statuses (handleHello sampleIdentifier (sampleRequest [])
               (Inr (sampleHello ''oidc'' [''none'']))) = [400]
   \<and> WriteHeader 204 \<notin> set (handleHello sampleIdentifier (sampleRequest [])
               (Inr (sampleHello ''oidc'' [''none''])))"
  by (simp add: handleHello_def newHelloResponse_def sampleIdentifier_def sampleHello_def
      PromptNone_def statuses_def Let_def)

text \<open>
  C7. For a Hello request whose prompts include login, \<open>newHelloResponse\<close> does not decode
  the logon cookie: its effects contain no call of \<open>GetUserFromLogonCookie\<close>, its result is
  the same for every cookie decoder, and a response it gives reports no success and names
  no user. This holds for every user the caller passes as well.
\<close>

theorem newHelloResponse_prompt_login_skips_cookie:
  assumes "Hello_Prompts r PromptLogin"
  shows "Call_GetUserFromLogonCookie \<notin> set (fst (newHelloResponse i req r identifiedUser))
       \<and> newHelloResponse (i\<lparr>GetUserFromLogonCookie := cookie\<rparr>) req r identifiedUser
           = newHelloResponse i req r identifiedUser
       \<and> (\<forall>response. snd (newHelloResponse i req r identifiedUser) = Inr response \<longrightarrow>
            \<not> Resp_Success response \<and> Resp_Username response = []
            \<and> Resp_DisplayName response = [])"
proof (cases "Hello_Prompts r PromptNone")
  case True
  then show ?thesis by (simp add: newHelloResponse_none)
next
  case False
  with assms show ?thesis by (simp add: newHelloResponse_login)
qed

theorem newHelloResponse_prompt_login_skips_cookie_witness:
  "Hello_Prompts (sampleHello ''oidc'' [''login'']) PromptLogin
   \<and> Call_GetUserFromLogonCookie \<notin> set (fst (newHelloResponse
        (sampleIdentifier\<lparr>GetUserFromLogonCookie :=
           (\<lambda>req. (Some \<lparr>user_sub = ''uid=bob'', user_username = ''bob'', user_displayName = ''Bob''\<rparr>, None))\<rparr>)
        (sampleRequest []) (sampleHello ''oidc'' [''login'']) None))"
  using newHelloResponse_prompt_login_skips_cookie
    [of "sampleHello ''oidc'' [''login'']"
        "sampleIdentifier\<lparr>GetUserFromLogonCookie :=
           (\<lambda>req. (Some \<lparr>user_sub = ''uid=bob'', user_username = ''bob'', user_displayName = ''Bob''\<rparr>, None))\<rparr>"
        "sampleRequest []" None]
  by (simp add: sampleHello_def PromptLogin_def)

text \<open>
  C8 (as the code has it). A Hello request that yields a success response and whose flow is
  one of OAuth, consent and OIDC carries the URI of the authorization endpoint as its
  continuation URI, and the flow of the request.
\<close>

theorem newHelloResponse_continue_uri:
  assumes "newHelloResponse i req r identifiedUser = (effs, Inr response)"
    and "Resp_Success response"
    and "Hello_Flow r = FlowOAuth \<or> Hello_Flow r = FlowConsent \<or> Hello_Flow r = FlowOIDC"
  shows "Resp_ContinueURI response = authorizationEndpointURI i \<and> Resp_Flow response = Hello_Flow r"
proof -
  from assms(1,2) have none: "\<not> Hello_Prompts r PromptNone"
    by (auto simp add: newHelloResponse_none)
  with assms(1,2) have login: "\<not> Hello_Prompts r PromptLogin"
    by (auto simp add: newHelloResponse_login)
  obtain effs0 response0 where ident: "helloIdentify i req identifiedUser
      \<lparr>Resp_State = Hello_State r, Resp_Flow = [], Resp_Success = False,
       Resp_Username = [], Resp_DisplayName = [], Resp_Next = [],
       Resp_ContinueURI = [], Resp_RequestedScopes = (\<lambda>_. False),
       Resp_ClientDetails = None\<rparr> = (effs0, response0)"
    by (cases "helloIdentify i req identifiedUser
      \<lparr>Resp_State = Hello_State r, Resp_Flow = [], Resp_Success = False,
       Resp_Username = [], Resp_DisplayName = [], Resp_Next = [],
       Resp_ContinueURI = [], Resp_RequestedScopes = (\<lambda>_. False),
       Resp_ClientDetails = None\<rparr>") simp
  with none login assms(1) have flow: "snd (helloFlow i r response0) = Inr response"
    by (simp add: newHelloResponse_def Let_def split: prod.splits)
  with assms(2,3) show ?thesis
    by (auto simp add: helloFlow_def Let_def split: if_splits sum.splits)
qed

theorem newHelloResponse_continue_uri_witness:
  "map_sum id Resp_ContinueURI
     (snd (newHelloResponse sampleIdentifier (sampleRequest [(''X-Forwarded-User'', ''alice'')])
        (sampleHello ''oidc'' []) None)) = Inr ''https://op.example/authorize''"
  using newHelloResponse_continue_uri
    [of sampleIdentifier "sampleRequest [(''X-Forwarded-User'', ''alice'')]"
        "sampleHello ''oidc'' []" None
        "fst (newHelloResponse sampleIdentifier (sampleRequest [(''X-Forwarded-User'', ''alice'')])
           (sampleHello ''oidc'' []) None)"
        "projr (snd (newHelloResponse sampleIdentifier (sampleRequest [(''X-Forwarded-User'', ''alice'')])
           (sampleHello ''oidc'' []) None))"]
  by (simp add: newHelloResponse_def helloIdentify_def helloFlow_def sampleIdentifier_def
      sampleRequest_def sampleHello_def PromptNone_def PromptLogin_def PromptConsent_def
      FlowOAuth_def FlowConsent_def FlowOIDC_def Let_def)

text \<open>
  C8 (as the spec has it) fails for a flow outside the three: a Hello request with an empty
  flow, identified by the proxy header, yields a success response whose continuation URI is
  empty, while the URI of the authorization endpoint is not.
\<close>

theorem newHelloResponse_continue_uri_counterexample:
  "map_sum id Resp_Success
     (snd (newHelloResponse sampleIdentifier (sampleRequest [(''X-Forwarded-User'', ''alice'')])
        (sampleHello [] []) None)) = Inr True
   \<and> map_sum id Resp_ContinueURI
     (snd (newHelloResponse sampleIdentifier (sampleRequest [(''X-Forwarded-User'', ''alice'')])
        (sampleHello [] []) None)) = Inr []
   \<and> authorizationEndpointURI sampleIdentifier \<noteq> []"
  by (simp add: newHelloResponse_def helloIdentify_def helloFlow_def sampleIdentifier_def
      sampleRequest_def sampleHello_def PromptNone_def PromptLogin_def PromptConsent_def
      FlowOAuth_def FlowConsent_def FlowOIDC_def Let_def)

section \<open>Handlers: Logon, theorems\<close>

text \<open>
  The loop of \<open>handleLogon\<close> for a request with a password, the mode flag "1" and no proxy
  header: the backend is asked, once, with the user name and the password.
\<close>

lemma logonUser_password:
  assumes "params = name # password # ''1'' # rest" and "password \<noteq> []"
    and "Header_Get req ''X-Forwarded-User'' = []"
  shows "logonUser i req params = logonBackend i params"
  using assms by (simp add: logonUser_def logonForwarded_def logonPassword_def at_def)

lemma logonBackend_call:
  assumes "params = name # password # ''1'' # rest"
  shows "logonBackend i params =
     after [Call_backend_Logon name password]
       (case backend_Logon i name password of
          (success, subject, err) \<Rightarrow>
            (case err of
               Some e \<Rightarrow>
                 ([Log Error ''identifier failed to logon with backend'' (Some e),
                   ErrorPage 500 ''failed to logon''], Returned)
             | None \<Rightarrow>
                 if success then
                   (case subject of
                      None \<Rightarrow> ([Panic NilDereference], Returned)
                    | Some s \<Rightarrow> ([], Proceed (Some \<lparr>user_sub = s, user_username = name, user_displayName = []\<rparr>)))
                 else ([], Proceed None)))"
  using assms by (simp add: logonBackend_def at_def split: prod.splits option.splits)

lemma handleLogon_backend_called:
  assumes "Logon_Params r = name # password # ''1'' # rest" and "password \<noteq> []"
    and "Header_Get req ''X-Forwarded-User'' = []"
  shows "\<exists>effs. handleLogon i req (Inr r) =
           AddNoCacheResponseHeaders # Call_backend_Logon name password # effs"
proof -
  obtain effs0 c where "logonUser i req (Logon_Params r) = after [Call_backend_Logon name password] (effs0, c)"
    unfolding logonUser_password [OF assms] logonBackend_call [OF assms(1)]
    by (metis surj_pair)
  then have "logonUser i req (Logon_Params r) = (Call_backend_Logon name password # effs0, c)"
    by (simp add: after_def)
  then show ?thesis
    by (simp add: handleLogon_def split: control.splits option.splits)
qed

text \<open>
  C5 (as the code has it). For a Logon request whose parameters are a user name, a
  non-empty password and the mode flag "1", and which carries no proxy header, the handler
  calls the Logon of the backend with this user name and password. When the backend answers
  no success and no error, the handler sets the state header and writes 204, and nothing
  else: no cookie is set. When the backend answers an error, the handler logs it and writes
  the error page 500.
\<close>

theorem handleLogon_delegates_to_backend:
  assumes "Logon_Params r = name # password # ''1'' # rest" and "password \<noteq> []"
    and "Header_Get req ''X-Forwarded-User'' = []"
  shows "Call_backend_Logon name password \<in> set (handleLogon i req (Inr r))
       \<and> (backend_Logon i name password = (False, subject, None) \<longrightarrow>
            handleLogon i req (Inr r) =
              [AddNoCacheResponseHeaders, Call_backend_Logon name password,
               Header_Set ''Kopano-Konnect-State'' (Logon_State r), WriteHeader 204])
       \<and> (backend_Logon i name password = (success, subject, Some e) \<longrightarrow>
            handleLogon i req (Inr r) =
              [AddNoCacheResponseHeaders, Call_backend_Logon name password,
               Log Error ''identifier failed to logon with backend'' (Some e),
               ErrorPage 500 ''failed to logon''])"
proof (intro conjI impI)
  from handleLogon_backend_called [OF assms, of i]
  show "Call_backend_Logon name password \<in> set (handleLogon i req (Inr r))" by auto
next
  assume "backend_Logon i name password = (False, subject, None)"
  then show "handleLogon i req (Inr r) =
      [AddNoCacheResponseHeaders, Call_backend_Logon name password,
       Header_Set ''Kopano-Konnect-State'' (Logon_State r), WriteHeader 204]"
    by (simp add: handleLogon_def logonUser_password [OF assms] logonBackend_call [OF assms(1)]
        after_def)
next
  assume "backend_Logon i name password = (success, subject, Some e)"
  then show "handleLogon i req (Inr r) =
      [AddNoCacheResponseHeaders, Call_backend_Logon name password,
       Log Error ''identifier failed to logon with backend'' (Some e),
       ErrorPage 500 ''failed to logon'']"
    by (simp add: handleLogon_def logonUser_password [OF assms] logonBackend_call [OF assms(1)]
        after_def)
qed

theorem handleLogon_delegates_to_backend_witness:
  "handleLogon sampleIdentifier (sampleRequest [])
     (Inr (sampleLogon [''alice'', ''wrong'', ''1''] None)) =
     [AddNoCacheResponseHeaders, Call_backend_Logon ''alice'' ''wrong'',
      Header_Set ''Kopano-Konnect-State'' ''st'', WriteHeader 204]
   \<and> handleLogon (sampleIdentifier\<lparr>backend_Logon := (\<lambda>name password. (False, None, Some ''network''))\<rparr>)
     (sampleRequest []) (Inr (sampleLogon [''alice'', ''secret'', ''1''] None)) =
     [AddNoCacheResponseHeaders, Call_backend_Logon ''alice'' ''secret'',
      Log Error ''identifier failed to logon with backend'' (Some ''network''),
      ErrorPage 500 ''failed to logon'']"
  using
    handleLogon_delegates_to_backend
      [of "sampleLogon [''alice'', ''wrong'', ''1''] None" "''alice''" "''wrong''" "[]"
          "sampleRequest []" sampleIdentifier None False "[]"]
    handleLogon_delegates_to_backend
      [of "sampleLogon [''alice'', ''secret'', ''1''] None" "''alice''" "''secret''" "[]"
          "sampleRequest []"
          "sampleIdentifier\<lparr>backend_Logon := (\<lambda>name password. (False, None, Some ''network''))\<rparr>"
          None False "''network''"]
  by (simp add: sampleLogon_def sampleRequest_def sampleIdentifier_def)

text \<open>
  C5 (as the spec has it) fails when the mode flag is not "1": for the parameters alice,
  secret and an empty flag, with no cookie and no proxy header, the handler does not call
  the backend, and writes 204 although the backend would have reported an error.
\<close>

theorem handleLogon_delegates_to_backend_counterexample:
  "Call_backend_Logon ''alice'' ''secret'' \<notin> set (handleLogon
      (sampleIdentifier\<lparr>backend_Logon := (\<lambda>name password. (False, None, Some ''network''))\<rparr>)
      (sampleRequest []) (Inr (sampleLogon [''alice'', ''secret'', []] None)))
   \<and> statuses (handleLogon
      (sampleIdentifier\<lparr>backend_Logon := (\<lambda>name password. (False, None, Some ''network''))\<rparr>)
      (sampleRequest []) (Inr (sampleLogon [''alice'', ''secret'', []] None))) = [204]"
  by (simp add: handleLogon_def logonUser_def logonForwarded_def logonPassword_def
      logonBackend_def at_def sampleLogon_def sampleRequest_def statuses_def)

text \<open>
  C9 (as the code has it). A Logon request is given whose credentials the backend accepts
  with a non-empty subject, and whose nested Hello request, once parsed, has the prompt
  login and not the prompt none. Then \<open>newHelloResponse\<close>, called with the user just
  authenticated, ignores this user and reports no success; the handler refreshes the user,
  sets the state header and writes 204. It does not call \<open>setLogonCookie\<close>.
\<close>

theorem handleLogon_hello_prompt_login:
  assumes "Logon_Params r = name # password # ''1'' # rest" and "password \<noteq> []"
    and "Header_Get req ''X-Forwarded-User'' = []"
    and "backend_Logon i name password = (True, Some s, None)" and "s \<noteq> []"
    and "Logon_Hello r = Some h0" and "Hello_parse i h0 = Inr h"
    and "Hello_Prompts h PromptLogin" and "\<not> Hello_Prompts h PromptNone"
  shows "map_sum id Resp_Success (snd (newHelloResponse i req h (Some user))) = Inr False
       \<and> handleLogon i req (Inr r) =
           [AddNoCacheResponseHeaders, Call_backend_Logon name password,
            Call_updateUser \<lparr>user_sub = s, user_username = name, user_displayName = []\<rparr>] @
           logIf Debug ''identifier failed to update user data in logon request''
             (snd (updateUser i \<lparr>user_sub = s, user_username = name, user_displayName = []\<rparr>)) @
           [Header_Set ''Kopano-Konnect-State'' (Logon_State r), WriteHeader 204]
       \<and> (\<forall>u. Call_setLogonCookie u \<notin> set (handleLogon i req (Inr r)))"
proof -
  have hello: "\<And>u. newHelloResponse i req h (Some u) =
       ([], Inr \<lparr>Resp_State = Hello_State h, Resp_Flow = [], Resp_Success = False,
                 Resp_Username = [], Resp_DisplayName = [], Resp_Next = [],
                 Resp_ContinueURI = [], Resp_RequestedScopes = (\<lambda>_. False),
                 Resp_ClientDetails = None\<rparr>)"
    using assms(8,9) by (simp add: newHelloResponse_login)
  have trace: "handleLogon i req (Inr r) =
           [AddNoCacheResponseHeaders, Call_backend_Logon name password,
            Call_updateUser \<lparr>user_sub = s, user_username = name, user_displayName = []\<rparr>] @
           logIf Debug ''identifier failed to update user data in logon request''
             (snd (updateUser i \<lparr>user_sub = s, user_username = name, user_displayName = []\<rparr>)) @
           [Header_Set ''Kopano-Konnect-State'' (Logon_State r), WriteHeader 204]"
    using assms(4-7)
    by (simp add: handleLogon_def logonUser_password [OF assms(1-3)]
        logonBackend_call [OF assms(1)] after_def Subject_def logonFinish_def logonHello_def
        hello split: prod.splits)
  have "\<And>u. Call_setLogonCookie u \<notin> set (handleLogon i req (Inr r))"
    unfolding trace by (simp add: logIf_def split: option.splits)
  with hello trace show ?thesis by simp
qed

theorem handleLogon_hello_prompt_login_witness:
  "handleLogon sampleIdentifier (sampleRequest [])
     (Inr (sampleLogon [''alice'', ''secret'', ''1''] (Some (sampleHello ''oidc'' [''login''])))) =
     [AddNoCacheResponseHeaders, Call_backend_Logon ''alice'' ''secret'',
      Call_updateUser \<lparr>user_sub = ''uid=alice'', user_username = ''alice'', user_displayName = []\<rparr>,
      Header_Set ''Kopano-Konnect-State'' ''st'', WriteHeader 204]"
  using handleLogon_hello_prompt_login
    [of "sampleLogon [''alice'', ''secret'', ''1''] (Some (sampleHello ''oidc'' [''login'']))"
        "''alice''" "''secret''" "[]" "sampleRequest []" sampleIdentifier "''uid=alice''"
        "sampleHello ''oidc'' [''login'']" "sampleHello ''oidc'' [''login'']"]
  by (simp add: sampleLogon_def sampleRequest_def sampleIdentifier_def sampleHello_def
      PromptLogin_def PromptNone_def logIf_def)

text \<open>
  C9 (as the spec has it) fails when the prompts include none as well as login: the nested
  Hello then answers an error, and the Logon writes the error page 400, not 204.
\<close>

theorem handleLogon_hello_prompt_login_counterexample:
  "Hello_Prompts (sampleHello ''oidc'' [''login'', ''none'']) PromptLogin
   \<and> statuses (handleLogon sampleIdentifier (sampleRequest [])
       (Inr (sampleLogon [''alice'', ''secret'', ''1'']
          (Some (sampleHello ''oidc'' [''login'', ''none'']))))) = [400]"
  by (simp add: handleLogon_def logonUser_def logonForwarded_def logonPassword_def
      logonBackend_def at_def after_def logonFinish_def logonHello_def newHelloResponse_def
      Subject_def logIf_def sampleLogon_def sampleRequest_def sampleIdentifier_def
      sampleHello_def PromptLogin_def PromptNone_def statuses_def Let_def)

subsection \<open>Index safety\<close>

lemma logIf_no_panic: "Panic p \<notin> set (logIf l msg err)"
  by (simp add: logIf_def split: option.splits)

lemma helloIdentify_no_panic: "Panic p \<notin> set (fst (helloIdentify i req u response))"
  by (auto simp add: helloIdentify_def Let_def logIf_no_panic split: option.splits prod.splits)

lemma helloFlow_no_panic: "Panic p \<notin> set (fst (helloFlow i r response))"
  by (simp add: helloFlow_def Let_def split: sum.splits)

lemma newHelloResponse_no_panic: "Panic p \<notin> set (fst (newHelloResponse i req r u))"
proof -
  have "\<And>a b. Panic p \<notin> set (fst (helloFlow i r b))"
    by (rule helloFlow_no_panic)
  moreover have "\<And>response. Panic p \<notin> set (fst (helloIdentify i req u response))"
    by (rule helloIdentify_no_panic)
  ultimately show ?thesis
    by (auto simp add: newHelloResponse_def Let_def split: prod.splits)
       (metis fst_conv)+
qed

lemma logonBackend_in_range: "Panic IndexOutOfRange \<notin> set (fst (logonBackend i params))"
  by (simp add: logonBackend_def at_def after_def split: prod.splits option.splits)

lemma logonPassword_in_range: "Panic IndexOutOfRange \<notin> set (fst (logonPassword i params))"
  by (simp add: logonPassword_def at_def logonBackend_in_range)

lemma logonForwarded_in_range: "Panic IndexOutOfRange \<notin> set (fst (logonForwarded i req params))"
  by (simp add: logonForwarded_def at_def after_def Let_def logonPassword_in_range
      split: prod.splits option.splits)

lemma logonCookie_in_range:
  "3 \<le> length params \<Longrightarrow> Panic IndexOutOfRange \<notin> set (fst (logonCookie i req params))"
  by (auto simp add: logonCookie_def at_def after_def logIf_no_panic logonForwarded_in_range
      split: prod.splits option.splits)

lemma logonUser_in_range: "Panic IndexOutOfRange \<notin> set (fst (logonUser i req params))"
  by (simp add: logonUser_def at_def logonCookie_in_range logonForwarded_in_range)

lemma logonHello_no_panic: "Panic p \<notin> set (fst (logonHello i req r user))"
  using newHelloResponse_no_panic [of p i req _ "Some user"]
  by (auto simp add: logonHello_def split: option.splits sum.splits prod.splits)
     (metis fst_conv)+

lemma logonFinish_no_panic: "Panic p \<notin> set (logonFinish i req r user)"
  using logonHello_no_panic [of p i req r]
  by (auto simp add: logonFinish_def Let_def logIf_no_panic
      split: prod.splits control.splits option.splits)
     (metis fst_conv)+

lemma logonUser_short:
  assumes "length params < 3" and "Header_Get req ''X-Forwarded-User'' = []"
  shows "logonUser i req params = ([], Proceed None)"
  using assms
  by (simp add: logonUser_def logonForwarded_def logonPassword_def logonBackend_def at_def)

text \<open>
  C10. Every read \<open>params[n]\<close> of \<open>handleLogon\<close> is \<open>at params n\<close> in the model, which
  panics when \<open>n\<close> is out of range. For every request, whatever the length of its
  parameters and whatever the collaborators answer, the handler does not panic with an index
  out of range. A request with fewer than three parameters and no proxy header gets the
  anonymous outcome: the state header and 204, and nothing else.
\<close>

theorem handleLogon_params_in_range:
  "Panic IndexOutOfRange \<notin> set (handleLogon i req decoded)
   \<and> (decoded = Inr r \<and> length (Logon_Params r) < 3 \<and> Header_Get req ''X-Forwarded-User'' = [] \<longrightarrow>
        handleLogon i req decoded =
          [AddNoCacheResponseHeaders,
           Header_Set ''Kopano-Konnect-State'' (Logon_State r), WriteHeader 204])"
proof (intro conjI impI)
  show "Panic IndexOutOfRange \<notin> set (handleLogon i req decoded)"
  proof (cases decoded)
    case (Inl err)
    then show ?thesis by (simp add: handleLogon_def)
  next
    case (Inr r')
    obtain effs c where u: "logonUser i req (Logon_Params r') = (effs, c)"
      by (cases "logonUser i req (Logon_Params r')") simp
    with logonUser_in_range [of i req "Logon_Params r'"]
    have "Panic IndexOutOfRange \<notin> set effs" by simp
    with Inr u show ?thesis
      by (simp add: handleLogon_def logonFinish_no_panic split: control.splits option.splits)
  qed
next
  assume "decoded = Inr r \<and> length (Logon_Params r) < 3 \<and> Header_Get req ''X-Forwarded-User'' = []"
  then show "handleLogon i req decoded =
          [AddNoCacheResponseHeaders,
           Header_Set ''Kopano-Konnect-State'' (Logon_State r), WriteHeader 204]"
    by (simp add: handleLogon_def logonUser_short)
qed

theorem handleLogon_params_in_range_witness:
  "handleLogon sampleIdentifier (sampleRequest []) (Inr (sampleLogon [] None)) =
     [AddNoCacheResponseHeaders, Header_Set ''Kopano-Konnect-State'' ''st'', WriteHeader 204]
   \<and> handleLogon sampleIdentifier (sampleRequest []) (Inr (sampleLogon [''alice''] None)) =
     [AddNoCacheResponseHeaders, Header_Set ''Kopano-Konnect-State'' ''st'', WriteHeader 204]
   \<and> handleLogon sampleIdentifier (sampleRequest []) (Inr (sampleLogon [''alice'', ''secret''] None)) =
     [AddNoCacheResponseHeaders, Header_Set ''Kopano-Konnect-State'' ''st'', WriteHeader 204]"
  using
    handleLogon_params_in_range
      [of sampleIdentifier "sampleRequest []" "Inr (sampleLogon [] None)" "sampleLogon [] None"]
    handleLogon_params_in_range
      [of sampleIdentifier "sampleRequest []" "Inr (sampleLogon [''alice''] None)"
          "sampleLogon [''alice''] None"]
    handleLogon_params_in_range
      [of sampleIdentifier "sampleRequest []" "Inr (sampleLogon [''alice'', ''secret''] None)"
          "sampleLogon [''alice'', ''secret''] None"]
  by (simp add: sampleLogon_def sampleRequest_def)

section \<open>Directory backend: the entry ID, theorems\<close>

subsection \<open>Escaping\<close>

lemma hex_digits: "\<forall>n \<in> set [0..<16]. ishex (upperhex ! n) \<and> unhex (upperhex ! n) = n"
  by code_simp

lemma hex_digit: "n < 16 \<Longrightarrow> ishex (upperhex ! n) \<and> unhex (upperhex ! n) = n"
  using hex_digits by simp

lemma char_of_nibbles: "char_of (of_char c div 16 * 16 + of_char c mod 16 :: nat) = c"
  by simp

lemma of_char_less_256: "(of_char c :: nat) < 256"
proof -
  have "(of_char c :: nat) mod 256 < 256" by (rule mod_less_divisor) simp
  then show ?thesis by (simp only: of_char_mod_256)
qed

lemma plain_chars: "\<not> shouldEscape c \<Longrightarrow> c \<noteq> CHR ''%'' \<and> c \<noteq> CHR ''+'' \<and> c \<noteq> CHR ''&'' \<and> c \<noteq> CHR ''='' \<and> c \<noteq> CHR '';''"
  by (auto simp add: shouldEscape_def)

lemma ishex_plain: "ishex c \<Longrightarrow> c \<noteq> CHR ''&'' \<and> c \<noteq> CHR ''='' \<and> c \<noteq> CHR '';''"
  by (auto simp add: ishex_def)

text \<open>
  Unescaping an escaped string gives the string back, and an escaped string has none of
  the bytes that separate the parts of a query.
\<close>

lemma QueryUnescape_QueryEscape: "QueryUnescape (QueryEscape s) = Inr s"
proof (induction s)
  case Nil
  then show ?case by simp
next
  case (Cons c s)
  have "(of_char c :: nat) div 16 < 16" using of_char_less_256 [of c] by arith
  moreover have "(of_char c :: nat) mod 16 < 16" by simp
  ultimately show ?case
    using Cons plain_chars [of c] by (simp add: hex_digit)
qed

lemma QueryEscape_chars:
  "c \<in> set (QueryEscape s) \<Longrightarrow> c \<noteq> CHR ''&'' \<and> c \<noteq> CHR ''='' \<and> c \<noteq> CHR '';''"
proof (induction s)
  case Nil
  then show ?case by simp
next
  case (Cons a s)
  have hi: "(of_char a :: nat) div 16 < 16" using of_char_less_256 [of a] by arith
  have lo: "(of_char a :: nat) mod 16 < 16" by simp
  from Cons show ?case
    using plain_chars [of a] ishex_plain [of "upperhex ! (of_char a div 16)"]
      ishex_plain [of "upperhex ! (of_char a mod 16)"] hex_digit [OF hi] hex_digit [OF lo]
    by (auto split: if_splits)
qed

subsection \<open>Parsing a query string\<close>

lemma Cut_found: "sep \<notin> set a \<Longrightarrow> Cut (a @ sep # b) sep = (a, b)"
  by (induction a) (auto simp add: Cut_def)

lemma Cut_not_found: "sep \<notin> set a \<Longrightarrow> Cut a sep = (a, [])"
  by (induction a) (auto simp add: Cut_def)

lemma segment_chars: "c \<in> set (segment p) \<Longrightarrow> c \<noteq> CHR ''&'' \<and> c \<noteq> CHR '';''"
  using QueryEscape_chars by (auto simp add: segment_def)

lemma segment_not_empty: "segment p \<noteq> []"
  by (simp add: segment_def)

lemma Cut_segment: "Cut (segment p) CHR ''='' = (QueryEscape (fst p), QueryEscape (snd p))"
proof -
  have "CHR ''='' \<notin> set (QueryEscape (fst p))" using QueryEscape_chars by blast
  then show ?thesis by (simp add: segment_def Cut_found)
qed

lemma parseQuery_empty: "parseQuery m [] err = (m, err)"
  by (subst parseQuery.simps) simp

lemma parseQuery_last: "parseQuery m (segment p) err = (addPair m p, err)"
proof -
  have amp: "CHR ''&'' \<notin> set (segment p)" and semi: "CHR '';'' \<notin> set (segment p)"
    using segment_chars by blast+
  have cut: "Cut (segment p) CHR ''&'' = (segment p, [])"
    using amp by (rule Cut_not_found)
  show ?thesis
    by (subst parseQuery.simps)
       (simp add: cut semi segment_not_empty Cut_segment QueryUnescape_QueryEscape addPair_def
          parseQuery_empty)
qed

lemma parseQuery_more:
  "parseQuery m (segment p @ CHR ''&'' # rest) err = parseQuery (addPair m p) rest err"
proof -
  have amp: "CHR ''&'' \<notin> set (segment p)" and semi: "CHR '';'' \<notin> set (segment p)"
    using segment_chars by blast+
  have cut: "Cut (segment p @ CHR ''&'' # rest) CHR ''&'' = (segment p, rest)"
    using amp by (rule Cut_found)
  show ?thesis
    by (subst parseQuery.simps)
       (simp add: cut semi segment_not_empty Cut_segment QueryUnescape_QueryEscape addPair_def)
qed

lemma parseQuery_queryString: "parseQuery m (queryString ps) err = (foldl addPair m ps, err)"
proof (induction ps arbitrary: m rule: queryString.induct)
  case 1
  show ?case by (simp add: parseQuery_empty)
next
  case (2 p)
  show ?case by (simp add: parseQuery_last)
next
  case (3 p q ps)
  then show ?case by (simp add: parseQuery_more)
qed

subsection \<open>Encoding is writing the sorted pairs\<close>

lemma foldl_writePair:
  "foldl (\<lambda>buf p. writePair buf (fst p) (snd p)) buf ps =
     (if ps = [] then buf else if buf = [] then queryString ps else buf @ ''&'' @ queryString ps)"
proof (induction ps arbitrary: buf rule: queryString.induct)
  case 1
  show ?case by simp
next
  case (2 p)
  show ?case by (simp add: writePair_def segment_def)
next
  case (3 p q ps)
  have "writePair buf (fst p) (snd p) \<noteq> []" by (simp add: writePair_def)
  with 3 [of "writePair buf (fst p) (snd p)"] show ?case
    by (simp add: writePair_def segment_def)
qed

lemma foldl_values: "foldl (\<lambda>buf val. writePair buf k val) buf vs =
    foldl (\<lambda>buf p. writePair buf (fst p) (snd p)) buf (map (Pair k) vs)"
  by (induction vs arbitrary: buf) simp_all

lemma foldl_keys:
  "foldl (\<lambda>buf k. foldl (\<lambda>buf val. writePair buf k val) buf (f k)) buf ks =
   foldl (\<lambda>buf p. writePair buf (fst p) (snd p)) buf (concat (map (\<lambda>k. map (Pair k) (f k)) ks))"
  by (induction ks arbitrary: buf) (simp_all add: foldl_values)

lemma Encode_queryString: "Encode v = queryString (sortedPairs v)"
proof -
  have "Encode v = foldl (\<lambda>buf p. writePair buf (fst p) (snd p)) [] (sortedPairs v)"
    by (simp add: Encode_def sortedPairs_def foldl_keys)
  also have "\<dots> = queryString (sortedPairs v)"
    by (cases "sortedPairs v = []") (simp_all add: foldl_writePair)
  finally show ?thesis .
qed

subsection \<open>Parsing an encoded multimap\<close>

lemma map_of_addPair:
  "map_of (addPair m p) = (map_of m)(fst p \<mapsto> Values_get m (fst p) @ [snd p])"
  by (simp add: addPair_def Values_set_def update_conv')

lemma Values_get_foldl_addPair:
  "map_of (foldl addPair m ps) k =
     (if filter (\<lambda>p. fst p = k) ps = [] then map_of m k
      else Some (Values_get m k @ map snd (filter (\<lambda>p. fst p = k) ps)))"
proof (induction ps arbitrary: m)
  case Nil
  show ?case by simp
next
  case (Cons p ps)
  show ?case
    by (simp add: Cons map_of_addPair Values_get_def)
qed

lemma distinct_addPair: "distinct (map fst m) \<Longrightarrow> distinct (map fst (addPair m p))"
  by (simp add: addPair_def Values_set_def distinct_update)

lemma distinct_foldl_addPair: "distinct (map fst m) \<Longrightarrow> distinct (map fst (foldl addPair m ps))"
  by (induction ps arbitrary: m) (simp_all add: distinct_addPair)

lemma filter_pairs:
  "distinct ks \<Longrightarrow>
     filter (\<lambda>p. fst p = k) (concat (map (\<lambda>k. map (Pair k) (f k)) ks)) =
       (if k \<in> set ks then map (Pair k) (f k) else [])"
proof (induction ks)
  case Nil
  show ?case by simp
next
  case (Cons a ks)
  have other: "\<And>j. j \<noteq> k \<Longrightarrow> filter (\<lambda>p. fst p = k) (map (Pair j) (f j)) = []"
    by (simp add: filter_empty_conv)
  have same: "filter (\<lambda>p. fst p = k) (map (Pair k) (f k)) = map (Pair k) (f k)"
    by (simp add: filter_id_conv)
  show ?case
  proof (cases "a = k")
    case True
    with Cons same show ?thesis by simp
  next
    case False
    with Cons other [of a] show ?thesis by simp
  qed
qed

lemma ParseQuery_Encode_map:
  assumes "wellFormed v"
  shows "snd (ParseQuery (Encode v)) = None
       \<and> map_of (fst (ParseQuery (Encode v))) = map_of v
       \<and> distinct (map fst (fst (ParseQuery (Encode v))))"
proof -
  have d: "distinct (map fst v)" and ne: "\<And>k vs. (k, vs) \<in> set v \<Longrightarrow> vs \<noteq> []"
    using assms by (auto simp add: wellFormed_def)
  have parsed: "ParseQuery (Encode v) = (foldl addPair [] (sortedPairs v), None)"
    by (simp add: ParseQuery_def Encode_queryString parseQuery_queryString)
  have keys: "distinct (sort (map fst v))" using d by simp
  have "map_of (foldl addPair [] (sortedPairs v)) k = map_of v k" for k
  proof (cases "map_of v k")
    case None
    then have "k \<notin> set (sort (map fst v))" by (simp add: map_of_eq_None_iff)
    then have "filter (\<lambda>p. fst p = k) (sortedPairs v) = []"
      unfolding sortedPairs_def by (simp add: filter_pairs [OF keys])
    with None show ?thesis by (simp add: Values_get_foldl_addPair)
  next
    case (Some vs)
    then have mem: "(k, vs) \<in> set v" by (rule map_of_SomeD)
    then have k: "k \<in> set (sort (map fst v))" by force
    from mem have "vs \<noteq> []" by (rule ne)
    moreover have "filter (\<lambda>p. fst p = k) (sortedPairs v) = map (Pair k) vs"
      unfolding sortedPairs_def using k Some
      by (simp add: filter_pairs [OF keys] Values_get_def)
    ultimately show ?thesis using Some
      by (simp add: Values_get_foldl_addPair Values_get_def comp_def)
  qed
  then have "map_of (foldl addPair [] (sortedPairs v)) = map_of v" by (rule ext)
  moreover have "distinct (map fst (foldl addPair [] (sortedPairs v)))"
    by (rule distinct_foldl_addPair) simp
  ultimately show ?thesis by (simp add: parsed)
qed

lemma ParseQuery_Encode_mset:
  assumes "wellFormed v"
  shows "mset (fst (ParseQuery (Encode v))) = mset v"
proof -
  from ParseQuery_Encode_map [OF assms]
  have m: "map_of (fst (ParseQuery (Encode v))) = map_of v"
    and d: "distinct (map fst (fst (ParseQuery (Encode v))))" by simp_all
  have dv: "distinct (map fst v)" using assms by (simp add: wellFormed_def)
  from m d dv have "set (fst (ParseQuery (Encode v))) = set v"
    by (simp add: map_of_inject_set)
  moreover have "distinct (fst (ParseQuery (Encode v)))" using d by (rule distinct_map [THEN iffD1, THEN conjunct1])
  moreover have "distinct v" using dv by (rule distinct_map [THEN iffD1, THEN conjunct1])
  ultimately show ?thesis by (simp add: set_eq_iff_mset_eq_distinct)
qed

subsection \<open>The multimap of an entry and the filter\<close>

lemma Values_set_cases: "p \<in> set (Values_set v k vs) \<Longrightarrow> p = (k, vs) \<or> p \<in> set v"
  unfolding Values_set_def by (induction v) (auto split: if_splits)

lemma wellFormed_Values_set:
  assumes "wellFormed v" and "vs \<noteq> []"
  shows "wellFormed (Values_set v k vs)"
proof -
  have "distinct (map fst (Values_set v k vs))"
    using assms(1) by (simp add: wellFormed_def Values_set_def distinct_update)
  moreover have "snd p \<noteq> []" if "p \<in> set (Values_set v k vs)" for p
    using Values_set_cases [OF that] assms by (auto simp add: wellFormed_def)
  ultimately show ?thesis by (simp add: wellFormed_def)
qed

lemma wellFormed_foldl:
  "wellFormed v \<Longrightarrow> wellFormed (foldl (addValues entry) v ks)"
  by (induction ks arbitrary: v) (simp_all add: addValues_def Let_def wellFormed_Values_set)

lemma wellFormed_entryValues: "wellFormed (entryValues ks entry)"
  unfolding entryValues_def by (rule wellFormed_foldl) (simp add: wellFormed_def)

lemma map_of_foldl_values:
  "map_of (foldl (addValues entry) v ks) k =
     (if k \<in> set ks \<and> GetAttributeValues entry k \<noteq> [] then Some (GetAttributeValues entry k)
      else map_of v k)"
  by (induction ks arbitrary: v) (auto simp add: addValues_def Let_def Values_set_def update_conv')

lemma map_of_entryValues:
  "map_of (entryValues ks entry) k =
     (if k \<in> set ks \<and> GetAttributeValues entry k \<noteq> [] then Some (GetAttributeValues entry k)
      else None)"
  by (simp add: entryValues_def map_of_foldl_values)

lemma foldl_terms:
  "foldl (\<lambda>filter' value. filter' @ equalityTerm k value) acc vs =
     acc @ concat (map (equalityTerm k) vs)"
  by (induction vs arbitrary: acc) simp_all

lemma foldl_equalityTerms:
  "foldl (\<lambda>filter' kv.
       foldl (\<lambda>filter' value. filter' @ equalityTerm (fst kv) value) filter' (snd kv))
     acc kvs = acc @ concat (map equalityTerms kvs)"
  by (induction kvs arbitrary: acc) (simp_all add: foldl_terms equalityTerms_def)

lemma getFilterTerms_concat: "getFilterTerms kvs = concat (map equalityTerms kvs)"
  by (simp add: getFilterTerms_def foldl_equalityTerms)

lemma equalityTerms_not_empty: "snd kv \<noteq> [] \<Longrightarrow> equalityTerms kv \<noteq> []"
  by (cases "snd kv") (simp_all add: equalityTerms_def equalityTerm_def)

lemma sample_entryID:
  "entryIDFromEntry sampleBackend [] (sampleEntry ''alice'')
     = ''mail=alice%40example.org&mail=a+b%26c&uid=alice''"
  by code_simp

lemma sample_filter:
  "baseAndGetFilterFromEntryID sampleBackend (sampleWorld [])
     ''mail=alice%40example.org&mail=a+b%26c&uid=alice''
   = (''dc=example'',
      ''(&(objectClass=inetOrgPerson)(uid=alice)(mail=alice@example.org)(mail=a b&c))'')"
  by code_simp

text \<open>
  The round trip of the encoding, as far as the code has it. In sub-attribute-mapping mode,
  for an entry that has a value for a mapped attribute:
  the entry ID is the URL query of the mapped attribute values, the keys sorted by attribute
  name and the values of an attribute in their order; the multimap encoded holds exactly the
  values of the mapped attributes that have any; parsing the entry ID succeeds and gives
  this multimap back; and decoding the entry ID gives the base DN and the filter that
  conjoins the get-filter with one equality term for every encoded value, the keys in the
  order in which Go visits the map. The values stand in the filter as they are, without the
  escapes of LDAP filters; the theorem after the next one shows what follows.
\<close>

theorem entryID_round_trip:
  assumes "entryIDMapping b = Some ks"
    and "\<exists>k \<in> set ks. GetAttributeValues entry k \<noteq> []"
    and "\<forall>m. mset (range_Values w m) = mset m"
  shows "entryIDFromEntry b mapping entry = queryString (sortedPairs (entryValues ks entry))
       \<and> (\<forall>k. map_of (entryValues ks entry) k =
             (if k \<in> set ks \<and> GetAttributeValues entry k \<noteq> []
              then Some (GetAttributeValues entry k) else None))
       \<and> snd (ParseQuery (entryIDFromEntry b mapping entry)) = None
       \<and> map_of (fst (ParseQuery (entryIDFromEntry b mapping entry))) = map_of (entryValues ks entry)
       \<and> (\<exists>visited. mset visited = mset (entryValues ks entry)
             \<and> baseAndGetFilterFromEntryID b w (entryIDFromEntry b mapping entry) =
                 (baseDN b, ''(&'' @ getFilter b @ concat (map equalityTerms visited) @ '')''))"
proof -
  let ?v = "entryValues ks entry"
  let ?id = "entryIDFromEntry b mapping entry"
  let ?visited = "range_Values w (fst (ParseQuery ?id))"
  have id: "?id = Encode ?v" using assms(1) by (simp add: entryIDFromEntry_def)
  have wf: "wellFormed ?v" by (rule wellFormed_entryValues)
  note parsed = ParseQuery_Encode_map [OF wf]
  have perm: "mset ?visited = mset ?v"
    using assms(3) ParseQuery_Encode_mset [OF wf] by (simp add: id)
  from assms(2) obtain k where "k \<in> set ks" and "GetAttributeValues entry k \<noteq> []" by blast
  then have "map_of ?v k = Some (GetAttributeValues entry k)" by (simp add: map_of_entryValues)
  then have "(k, GetAttributeValues entry k) \<in> set ?v" by (rule map_of_SomeD)
  then have "(k, GetAttributeValues entry k) \<in> set ?visited"
    using perm by (metis set_mset_mset)
  then have "\<exists>kv \<in> set ?visited. equalityTerms kv \<noteq> []"
    using \<open>GetAttributeValues entry k \<noteq> []\<close> equalityTerms_not_empty [of "(k, GetAttributeValues entry k)"]
    by auto
  then have nonempty: "getFilterTerms ?visited \<noteq> []"
    by (simp add: getFilterTerms_concat)
  obtain vals where pq: "ParseQuery ?id = (vals, None)"
    using parsed by (cases "ParseQuery ?id") (simp add: id)
  have "baseAndGetFilterFromEntryID b w ?id =
      (baseDN b, ''(&'' @ getFilter b @ concat (map equalityTerms ?visited) @ '')'')"
    using assms(1) nonempty
    by (simp add: baseAndGetFilterFromEntryID_def Let_def pq getFilterTerms_concat)
  with perm have "\<exists>visited. mset visited = mset ?v
             \<and> baseAndGetFilterFromEntryID b w ?id =
                 (baseDN b, ''(&'' @ getFilter b @ concat (map equalityTerms visited) @ '')'')"
    by blast
  moreover have "?id = queryString (sortedPairs ?v)" by (simp add: id Encode_queryString)
  moreover have "snd (ParseQuery ?id) = None" and "map_of (fst (ParseQuery ?id)) = map_of ?v"
    using parsed by (simp_all add: id)
  ultimately show ?thesis by (simp add: map_of_entryValues)
qed

theorem entryID_round_trip_witness:
  "entryIDFromEntry sampleBackend [] (sampleEntry ''alice'')
     = ''mail=alice%40example.org&mail=a+b%26c&uid=alice''
   \<and> snd (ParseQuery ''mail=alice%40example.org&mail=a+b%26c&uid=alice'') = None
   \<and> map_of (fst (ParseQuery ''mail=alice%40example.org&mail=a+b%26c&uid=alice''))
       = map_of (entryValues [''uid'', ''mail''] (sampleEntry ''alice''))
   \<and> baseAndGetFilterFromEntryID sampleBackend (sampleWorld [])
       ''mail=alice%40example.org&mail=a+b%26c&uid=alice''
     = (''dc=example'',
        ''(&(objectClass=inetOrgPerson)(uid=alice)(mail=alice@example.org)(mail=a b&c))'')"
proof -
  have mapped: "entryIDMapping sampleBackend = Some [''uid'', ''mail'']"
    by (simp add: sampleBackend_def)
  have valued: "\<exists>k \<in> set [''uid'', ''mail'']. GetAttributeValues (sampleEntry ''alice'') k \<noteq> []"
    by (simp add: GetAttributeValues_def sampleEntry_def)
  have visits: "\<forall>m. mset (range_Values (sampleWorld []) m) = mset m"
    by (simp add: sampleWorld_def)
  from entryID_round_trip [OF mapped valued visits, of "[]"]
  have "snd (ParseQuery (entryIDFromEntry sampleBackend [] (sampleEntry ''alice''))) = None
      \<and> map_of (fst (ParseQuery (entryIDFromEntry sampleBackend [] (sampleEntry ''alice''))))
          = map_of (entryValues [''uid'', ''mail''] (sampleEntry ''alice''))"
    by blast
  then show ?thesis
    unfolding sample_entryID using sample_filter by simp
qed

text \<open>
  C4 fails on the code. The claim: encoding the mapped values of an entry and decoding the
  entry ID gives the filter that fetches the same entry again. The backend maps the
  subject to the attribute cn. The entry whose cn is \<^verbatim>\<open>Smith)(cn=Jones\<close> and the entry with
  the two cn values Smith and Jones have different entry IDs, and both entry IDs decode to
  the same base and the same filter, the conjunction of \<^verbatim>\<open>(cn=Smith)\<close> and \<^verbatim>\<open>(cn=Jones)\<close>:
  \<open>baseAndGetFilterFromEntryID\<close> writes the value into the filter as it is. On a directory
  that answers this filter with the entry that has both values, \<open>getUser\<close> for the entry ID
  of the first entry finds the second, and \<open>GetUser\<close> fails with "returned wrong user". The
  entry ID of the entry whose cn is \<^verbatim>\<open>John (IT)\<close> decodes to a filter with parentheses
  inside the value, which is not a filter of LDAP.
\<close>

theorem entryID_refetch_unescaped:
  "entryIDFromEntry cnBackend [] injectedEntry = ''cn=Smith%29%28cn%3DJones''
   \<and> entryIDFromEntry cnBackend [] smithJonesEntry = ''cn=Smith&cn=Jones''
   \<and> baseAndGetFilterFromEntryID cnBackend cnWorld (entryIDFromEntry cnBackend [] injectedEntry)
       = (''dc=example'', ''(&(objectClass=inetOrgPerson)(cn=Smith)(cn=Jones))'')
   \<and> baseAndGetFilterFromEntryID cnBackend cnWorld (entryIDFromEntry cnBackend [] smithJonesEntry)
       = (''dc=example'', ''(&(objectClass=inetOrgPerson)(cn=Smith)(cn=Jones))'')
   \<and> getUser cnBackend cnWorld (entryIDFromEntry cnBackend [] injectedEntry)
         (attributes (attributeMapping cnBackend)) = Inr smithJonesEntry
   \<and> GetUser cnBackend cnWorld (entryIDFromEntry cnBackend [] injectedEntry) None
       = Inl (Errorf ''ldap identifier backend get user returned wrong user'')
   \<and> baseAndGetFilterFromEntryID cnBackend cnWorld (entryIDFromEntry cnBackend [] remarkEntry)
       = (''dc=example'', ''(&(objectClass=inetOrgPerson)(cn=John (IT)))'')"
proof (intro conjI)
  show "entryIDFromEntry cnBackend [] injectedEntry = ''cn=Smith%29%28cn%3DJones''"
    by code_simp
  show "entryIDFromEntry cnBackend [] smithJonesEntry = ''cn=Smith&cn=Jones''"
    by code_simp
  show "baseAndGetFilterFromEntryID cnBackend cnWorld (entryIDFromEntry cnBackend [] injectedEntry)
       = (''dc=example'', ''(&(objectClass=inetOrgPerson)(cn=Smith)(cn=Jones))'')"
    by code_simp
  show "baseAndGetFilterFromEntryID cnBackend cnWorld (entryIDFromEntry cnBackend [] smithJonesEntry)
       = (''dc=example'', ''(&(objectClass=inetOrgPerson)(cn=Smith)(cn=Jones))'')"
    by code_simp
  show "getUser cnBackend cnWorld (entryIDFromEntry cnBackend [] injectedEntry)
         (attributes (attributeMapping cnBackend)) = Inr smithJonesEntry"
    by code_simp
  show "GetUser cnBackend cnWorld (entryIDFromEntry cnBackend [] injectedEntry) None
       = Inl (Errorf ''ldap identifier backend get user returned wrong user'')"
    by code_simp
  show "baseAndGetFilterFromEntryID cnBackend cnWorld (entryIDFromEntry cnBackend [] remarkEntry)
       = (''dc=example'', ''(&(objectClass=inetOrgPerson)(cn=John (IT)))'')"
    by code_simp
qed

section \<open>Directory backend: Logon, theorems\<close>

lemma Logon_success_no_error:
  "succeeded (Logon b w audience username password) \<longrightarrow>
     failure (Logon b w audience username password) = None"
  by (simp add: Logon_def Let_def fails_def succeeded_def failure_def
      split: sum.splits option.splits)

lemma sampleWorld_fields:
  "limiter_Wait (sampleWorld found) = None"
  "dialer_DialContext (sampleWorld found) = None"
  "tls_Handshake (sampleWorld found) = None"
  "ldap_Search (sampleWorld found) = (\<lambda>request. Inr found)"
  "ldap_Bind (sampleWorld found) =
     (\<lambda>dn password. if password = ''secret'' then None
                      else Some (LDAPError LDAPResultInvalidCredentials))"
  "strings_EqualFold (sampleWorld found) = (=)"
  by (simp_all add: sampleWorld_def)

lemma sampleBackend_fields:
  "isTLS sampleBackend = False"
  "bindDN sampleBackend = []"
  "mapping_get (attributeMapping sampleBackend) AttributeLogin = ''uid''"
  by (simp_all add: sampleBackend_def mapping_get_def AttributeLogin_def)

lemma sampleEntry_login: "GetAttributeValue (sampleEntry name) ''uid'' = name"
  by (simp add: GetAttributeValue_def GetAttributeValues_def sampleEntry_def)

text \<open>
  C1. For every user name and password, with a login attribute configured and a connection
  established: when the search finds no entry (or the directory answers "no such object"),
  and when the one entry found is the user and the bind as this entry reports invalid
  credentials, Logon returns no success and no error. When the search finds more than one
  entry, when the search fails with another error, when the connection fails, and when the
  bind fails with another error, Logon returns an error and no success. Logon never returns
  success together with an error.
\<close>

theorem Logon_non_match_or_error:
  "(mapping_get (attributeMapping b) AttributeLogin \<noteq> [] \<and> connect b w = Inr ()
      \<and> (ldap_Search w (usernameSearchRequest b w username (attributes (attributeMapping b))) = Inr []
          \<or> ldap_Search w (usernameSearchRequest b w username (attributes (attributeMapping b)))
              = Inl (LDAPError LDAPResultNoSuchObject)) \<longrightarrow>
    Logon b w audience username password = (False, None, None, None, None))
   \<and> (mapping_get (attributeMapping b) AttributeLogin \<noteq> [] \<and> connect b w = Inr ()
      \<and> ldap_Search w (usernameSearchRequest b w username (attributes (attributeMapping b))) = Inr [entry]
      \<and> strings_EqualFold w
            (GetAttributeValue entry (mapping_get (attributeMapping b) AttributeLogin)) username
      \<and> ldap_Bind w (DN entry) password = Some (LDAPError LDAPResultInvalidCredentials) \<longrightarrow>
    Logon b w audience username password = (False, None, None, None, None))
   \<and> (ldap_Search w (usernameSearchRequest b w username (attributes (attributeMapping b)))
        = Inr (entry # entry' # entries) \<longrightarrow>
    failure (Logon b w audience username password) \<noteq> None
    \<and> \<not> succeeded (Logon b w audience username password))
   \<and> (ldap_Search w (usernameSearchRequest b w username (attributes (attributeMapping b))) = Inl err
      \<and> \<not> IsErrorWithCode (Some err) LDAPResultNoSuchObject \<longrightarrow>
    failure (Logon b w audience username password) \<noteq> None
    \<and> \<not> succeeded (Logon b w audience username password))
   \<and> (connect b w = Inl err \<longrightarrow>
    failure (Logon b w audience username password) \<noteq> None
    \<and> \<not> succeeded (Logon b w audience username password))
   \<and> (ldap_Search w (usernameSearchRequest b w username (attributes (attributeMapping b))) = Inr [entry]
      \<and> ldap_Bind w (DN entry) password = Some err
      \<and> \<not> IsErrorWithCode (Some err) LDAPResultInvalidCredentials \<longrightarrow>
    failure (Logon b w audience username password) \<noteq> None
    \<and> \<not> succeeded (Logon b w audience username password))
   \<and> (succeeded (Logon b w audience username password) \<longrightarrow>
    failure (Logon b w audience username password) = None)"
proof (intro conjI impI)
  show "succeeded (Logon b w audience username password) \<Longrightarrow>
     failure (Logon b w audience username password) = None"
    using Logon_success_no_error by blast
qed (auto simp add: Logon_def searchUsername_def Let_def fails_def succeeded_def failure_def
        split: sum.splits option.splits list.splits)

lemma sample_logon:
  "Logon sampleBackend (sampleWorld [sampleEntry ''alice'']) [] ''alice'' ''secret''
     = (True, Some ''mail=alice%40example.org&mail=a+b%26c&uid=alice'', None,
        Some [(IdentifiedUserIDClaim, ''mail=alice%40example.org&mail=a+b%26c&uid=alice'')], None)"
  by code_simp

theorem Logon_non_match_or_error_witness:
  "Logon sampleBackend (sampleWorld []) [] ''bob'' ''secret'' = (False, None, None, None, None)
   \<and> Logon sampleBackend (sampleWorld [sampleEntry ''alice'']) [] ''alice'' ''wrong''
       = (False, None, None, None, None)
   \<and> failure (Logon sampleBackend (sampleWorld [sampleEntry ''bob'', sampleEntry ''bob''])
        [] ''bob'' ''secret'') \<noteq> None
   \<and> failure (Logon sampleBackend
        ((sampleWorld [])\<lparr>ldap_Search := (\<lambda>request. Inl (LDAPError ErrorNetwork))\<rparr>)
        [] ''bob'' ''secret'') \<noteq> None
   \<and> failure (Logon sampleBackend
        ((sampleWorld [])\<lparr>dialer_DialContext := Some (Errorf ''connection refused'')\<rparr>)
        [] ''bob'' ''secret'') \<noteq> None
   \<and> failure (Logon sampleBackend
        ((sampleWorld [sampleEntry ''alice''])\<lparr>ldap_Bind := (\<lambda>dn password. Some (LDAPError ErrorNetwork))\<rparr>)
        [] ''alice'' ''secret'') \<noteq> None
   \<and> failure (Logon sampleBackend (sampleWorld [sampleEntry ''alice'']) [] ''alice'' ''secret'')
       = None"
proof (intro conjI)
  show "failure (Logon sampleBackend (sampleWorld [sampleEntry ''alice'']) [] ''alice'' ''secret'')
       = None"
    using Logon_non_match_or_error
      [where b = sampleBackend and w = "sampleWorld [sampleEntry ''alice'']"
         and username = "''alice''" and password = "''secret''" and audience = "[]"]
    by (simp add: sample_logon succeeded_def)
  show "Logon sampleBackend (sampleWorld []) [] ''bob'' ''secret'' = (False, None, None, None, None)"
    using Logon_non_match_or_error
      [where b = sampleBackend and w = "sampleWorld []" and username = "''bob''"
         and password = "''secret''" and audience = "[]"]
    by (simp add: connect_def sampleWorld_fields sampleBackend_fields)
  show "Logon sampleBackend (sampleWorld [sampleEntry ''alice'']) [] ''alice'' ''wrong''
       = (False, None, None, None, None)"
    using Logon_non_match_or_error
      [where b = sampleBackend and w = "sampleWorld [sampleEntry ''alice'']"
         and username = "''alice''" and password = "''wrong''" and audience = "[]"
         and entry = "sampleEntry ''alice''"]
    by (simp add: connect_def sampleWorld_fields sampleBackend_fields sampleEntry_login)
  show "failure (Logon sampleBackend (sampleWorld [sampleEntry ''bob'', sampleEntry ''bob''])
        [] ''bob'' ''secret'') \<noteq> None"
    using Logon_non_match_or_error
      [where b = sampleBackend and w = "sampleWorld [sampleEntry ''bob'', sampleEntry ''bob'']"
         and username = "''bob''" and password = "''secret''" and audience = "[]"
         and entry = "sampleEntry ''bob''" and entry' = "sampleEntry ''bob''" and entries = "[]"]
    by (simp add: sampleWorld_fields)
  show "failure (Logon sampleBackend
        ((sampleWorld [])\<lparr>ldap_Search := (\<lambda>request. Inl (LDAPError ErrorNetwork))\<rparr>)
        [] ''bob'' ''secret'') \<noteq> None"
    using Logon_non_match_or_error
      [where b = sampleBackend
         and w = "(sampleWorld [])\<lparr>ldap_Search := (\<lambda>request. Inl (LDAPError ErrorNetwork))\<rparr>"
         and username = "''bob''" and password = "''secret''" and audience = "[]"
         and err = "LDAPError ErrorNetwork"]
    by (simp add: ErrorNetwork_def LDAPResultNoSuchObject_def)
  show "failure (Logon sampleBackend
        ((sampleWorld [])\<lparr>dialer_DialContext := Some (Errorf ''connection refused'')\<rparr>)
        [] ''bob'' ''secret'') \<noteq> None"
    using Logon_non_match_or_error
      [where b = sampleBackend
         and w = "(sampleWorld [])\<lparr>dialer_DialContext := Some (Errorf ''connection refused'')\<rparr>"
         and username = "''bob''" and password = "''secret''" and audience = "[]"
         and err = "LDAPError ErrorNetwork"]
    by (simp add: connect_def sampleWorld_fields)
  show "failure (Logon sampleBackend
        ((sampleWorld [sampleEntry ''alice''])\<lparr>ldap_Bind := (\<lambda>dn password. Some (LDAPError ErrorNetwork))\<rparr>)
        [] ''alice'' ''secret'') \<noteq> None"
    using Logon_non_match_or_error
      [where b = sampleBackend
         and w = "(sampleWorld [sampleEntry ''alice''])\<lparr>ldap_Bind := (\<lambda>dn password. Some (LDAPError ErrorNetwork))\<rparr>"
         and username = "''alice''" and password = "''secret''" and audience = "[]"
         and entry = "sampleEntry ''alice''" and err = "LDAPError ErrorNetwork"]
    by (simp add: sampleWorld_fields ErrorNetwork_def LDAPResultInvalidCredentials_def)
qed

end
